theory Spec2Isabelle
  imports Complex_Main "HOL-Library.Sublist"
begin

section \<open>Python values\<close>

text \<open>
  A Python \<^verbatim>\<open>str\<close> is a sequence of Unicode code points, so a string is a list of
  code points here. The Thai texts of the program are written out as code points;
  \<open>ascii\<close> turns an ASCII literal into such a list.
\<close>

type_synonym ustr = "nat list"

definition ascii :: "string \<Rightarrow> ustr" where
  "ascii s = map of_char s"

text \<open>
  A Python \<^verbatim>\<open>float\<close>, as far as the program uses one: it only compares floats and
  tests them for zero. Comparisons of finite values follow the order of the reals; every
  comparison with NaN is false.
\<close>

datatype pyfloat = Fin real | PosInf | NegInf | NaN

fun float_lt :: "pyfloat \<Rightarrow> pyfloat \<Rightarrow> bool" where
  "float_lt NaN _ = False"
| "float_lt _ NaN = False"
| "float_lt (Fin a) (Fin b) = (a < b)"
| "float_lt (Fin _) PosInf = True"
| "float_lt (Fin _) NegInf = False"
| "float_lt PosInf _ = False"
| "float_lt NegInf NegInf = False"
| "float_lt NegInf _ = True"

text \<open>
  The values \<^verbatim>\<open>json.loads\<close> produces. \<open>JNull\<close> is Python's \<^verbatim>\<open>None\<close>. A decoded
  object is a Python dict: the decoder keeps one entry per key.
\<close>

datatype json =
    JNull
  | JBool bool
  | JInt int
  | JFloat pyfloat
  | JString ustr
  | JArray "json list"
  | JObject "(ustr \<times> json) list"

text \<open>
  The exceptions that reach the handler of the speech endpoint: the one the endpoint
  raises itself with its message, the AttributeError of a method called on a value that
  lacks it, the KeyError of a missing session, the error of the response model's
  validation, and the two that \<^verbatim>\<open>json.loads\<close> raises beside its JSONDecodeError: the
  RecursionError on a text nested too deep, and a plain ValueError with its message (on
  a number with more digits than the interpreter converts).
\<close>

datatype py_exception =
    Exception ustr
  | AttributeError
  | KeyError
  | ValidationError
  | RecursionError
  | ValueError ustr

text \<open>
  What \<^verbatim>\<open>json.loads\<close> does with a text: it returns the decoded value, raises
  JSONDecodeError, or raises another exception.
\<close>

datatype loads_result = Loaded json | JSONDecodeError | Raises py_exception

text \<open>Python's truth value of an object, as \<^verbatim>\<open>if x:\<close> and \<^verbatim>\<open>not x\<close> take it.\<close>

fun truthy :: "json \<Rightarrow> bool" where
  "truthy JNull = False"
| "truthy (JBool b) = b"
| "truthy (JInt i) = (i \<noteq> 0)"
| "truthy (JFloat f) = (f \<noteq> Fin 0)"
| "truthy (JString s) = (s \<noteq> [])"
| "truthy (JArray xs) = (xs \<noteq> [])"
| "truthy (JObject kvs) = (kvs \<noteq> [])"

text \<open>\<^verbatim>\<open>xs[-n:]\<close> for a positive constant \<open>n\<close>: the last \<open>n\<close> elements, all of them when
  there are fewer.\<close>

definition last_n :: "nat \<Rightarrow> 'a list \<Rightarrow> 'a list" where
  "last_n n xs = drop (length xs - n) xs"

text \<open>\<^verbatim>\<open>sep.join(parts)\<close>.\<close>

fun join :: "ustr \<Rightarrow> ustr list \<Rightarrow> ustr" where
  "join sep [] = []"
| "join sep [x] = x"
| "join sep (x # y # ys) = x @ sep @ join sep (y # ys)"

text \<open>The decimal digits of a number, as an f-string prints the counter of \<^verbatim>\<open>enumerate\<close>.\<close>

fun dec :: "nat \<Rightarrow> ustr" where
  "dec n = (if n < 10 then [48 + n] else dec (n div 10) @ [48 + n mod 10])"

declare dec.simps [simp del]

text \<open>
  What an f-string prints for a value: a \<^verbatim>\<open>str\<close> is printed as it is. The printing of
  the other values (\<^verbatim>\<open>str()\<close> of a number, a list, a dict) is left to \<open>py_str\<close>.
\<close>

definition fstr :: "(json \<Rightarrow> ustr) \<Rightarrow> json \<Rightarrow> ustr" where
  "fstr py_str v = (case v of JString s \<Rightarrow> s | _ \<Rightarrow> py_str v)"

text \<open>An f-string on a value that is a \<^verbatim>\<open>str\<close> or \<^verbatim>\<open>None\<close>.\<close>

definition fstr_opt :: "ustr option \<Rightarrow> ustr" where
  "fstr_opt v = (case v of None \<Rightarrow> ascii ''None'' | Some s \<Rightarrow> s)"

section \<open>The texts of the program\<close>

text \<open>The string literals of the source, one number per code point (the Thai letters are
  the code points from 3585 on; 10 is the newline, 32 the space).\<close>

definition clarification_text :: ustr where
  \<comment> \<open>the reply of the confidence gate: an apology, I did not hear you clearly, please say it again\<close>
  "clarification_text =
    [3586, 3629, 3650, 3607, 3625, 3588, 3656, 3632, 32, 3593, 3633, 3609, 3652, 3617,
     3656, 3588, 3656, 3629, 3618, 3652, 3604, 3657, 3618, 3636, 3609, 3594, 3633, 3604,
     3648, 3592, 3609, 32, 3594, 3656, 3623, 3618, 3614, 3641, 3604, 3629, 3637, 3585,
     3588, 3619, 3633, 3657, 3591, 3652, 3604, 3657, 3652, 3627, 3617, 3588, 3632]"

definition default_response_text :: ustr where
  \<comment> \<open>the default of \<^verbatim>\<open>llm_output.get("response", ...)\<close>: an apology, I do not understand\<close>
  "default_response_text =
    [3586, 3629, 3650, 3607, 3625, 3588, 3656, 3632, 32, 3593, 3633, 3609, 3652, 3617,
     3656, 3648, 3586, 3657, 3634, 3651, 3592]"

definition greeting_prefix :: ustr where
  \<comment> \<open>the greeting line before the student's name: you are talking with\<close>
  "greeting_prefix =
    [3588, 3640, 3603, 3585, 3635, 3621, 3633, 3591, 3614, 3641, 3604, 3588, 3640, 3618,
     3585, 3633, 3610, 32]"

definition location_prefix :: ustr where
  \<comment> \<open>the location line before the location: current position\<close>
  "location_prefix =
    [3605, 3635, 3649, 3627, 3609, 3656, 3591, 3611, 3633, 3592, 3592, 3640, 3610, 3633,
     3609, 58, 32]"

definition memories_header :: ustr where
  \<comment> \<open>the header of the memories, with its leading newline: relevant memories\<close>
  "memories_header =
    [10, 3588, 3623, 3634, 3617, 3607, 3619, 3591, 3592, 3635, 3607, 3637, 3656, 3648,
     3585, 3637, 3656, 3618, 3623, 3586, 3657, 3629, 3591, 58]"

definition history_header :: ustr where
  \<comment> \<open>the header of the conversation, with its leading newline: recent conversation\<close>
  "history_header =
    [10, 3610, 3607, 3626, 3609, 3607, 3609, 3634, 3621, 3656, 3634, 3626, 3640, 3604, 58]"

definition role_student :: ustr where
  \<comment> \<open>the label of a user turn: student\<close>
  "role_student =
    [3609, 3633, 3585, 3624, 3638, 3585, 3625, 3634]"

definition role_robot :: ustr where
  \<comment> \<open>the label of any other turn: robot\<close>
  "role_robot =
    [3627, 3640, 3656, 3609, 3618, 3609, 3605, 3660]"

definition student_says :: ustr where
  \<comment> \<open>in the user message, between the context and the utterance: two newlines, student\<close>
  "student_says =
    [10, 10, 3609, 3633, 3585, 3624, 3638, 3585, 3625, 3634, 58, 32]"

definition bot_says :: ustr where
  \<comment> \<open>in the user message, after the utterance: two newlines, the robot's name\<close>
  "bot_says =
    [10, 10, 3609, 3657, 3629, 3591, 3610, 3629, 3607, 58]"

definition system_prompt :: ustr where
  \<comment> \<open>the system instruction of \<^verbatim>\<open>process_speech\<close>, which asks for a JSON object with the
      keys response, intent and location\<close>
  "system_prompt =
    [3588, 3640, 3603, 3588, 3639, 3629, 3627, 3640, 3656, 3609, 3618, 3609, 3605, 3660,
     3610, 3619, 3636, 3585, 3634, 3619, 3651, 3609, 3617, 3627, 3634, 3623, 3636, 3607,
     3618, 3634, 3621, 3633, 3618, 32, 3594, 3639, 3656, 3629, 3623, 3656, 3634, 32, 34,
     3609, 3657, 3629, 3591, 3610, 3629, 3607, 34, 32, 10, 3588, 3640, 3603, 3614, 3641,
     3604, 3616, 3634, 3625, 3634, 3652, 3607, 3618, 3629, 3618, 3656, 3634, 3591, 3648,
     3611, 3655, 3609, 3617, 3636, 3605, 3619, 32, 3649, 3621, 3632, 3594, 3656, 3623,
     3618, 3648, 3627, 3621, 3639, 3629, 3609, 3633, 3585, 3624, 3638, 3585, 3625, 3634,
     3651, 3609, 3585, 3634, 3619, 3609, 3635, 3607, 3634, 3591, 32, 3605, 3629, 3610,
     3588, 3635, 3606, 3634, 3617, 32, 3649, 3621, 3632, 3610, 3633, 3609, 3607, 3638,
     3585, 3652, 3604, 3629, 3634, 3619, 3637, 3656, 10, 10, 3605, 3629, 3610, 3588,
     3635, 3606, 3634, 3617, 3629, 3618, 3656, 3634, 3591, 3585, 3619, 3632, 3594, 3633,
     3610, 3649, 3621, 3632, 3648, 3611, 3655, 3609, 3608, 3619, 3619, 3617, 3594, 3634,
     3605, 3636, 32, 10, 3606, 3657, 3634, 3609, 3633, 3585, 3624, 3638, 3585, 3625,
     3634, 3605, 3657, 3629, 3591, 3585, 3634, 3619, 3609, 3635, 3607, 3634, 3591, 3652,
     3611, 3618, 3633, 3591, 3626, 3606, 3634, 3609, 3607, 3637, 3656, 32, 3651, 3627,
     3657, 3619, 3632, 3610, 3640, 32, 105, 110, 116, 101, 110, 116, 32, 3648, 3611,
     3655, 3609, 32, 34, 110, 97, 118, 105, 103, 97, 116, 105, 111, 110, 34, 10, 3606,
     3657, 3634, 3648, 3611, 3655, 3609, 3585, 3634, 3619, 3626, 3609, 3607, 3609, 3634,
     3607, 3633, 3656, 3623, 3652, 3611, 32, 3651, 3627, 3657, 3619, 3632, 3610, 3640,
     32, 105, 110, 116, 101, 110, 116, 32, 3648, 3611, 3655, 3609, 32, 34, 99, 111, 110,
     118, 101, 114, 115, 97, 116, 105, 111, 110, 34, 10, 10, 3605, 3629, 3610, 3585,
     3621, 3633, 3610, 3651, 3609, 3619, 3641, 3611, 3649, 3610, 3610, 32, 74, 83, 79,
     78, 58, 10, 123, 10, 32, 32, 32, 32, 34, 114, 101, 115, 112, 111, 110, 115, 101,
     34, 58, 32, 34, 3588, 3635, 3605, 3629, 3610, 3586, 3629, 3591, 3588, 3640, 3603,
     34, 44, 10, 32, 32, 32, 32, 34, 105, 110, 116, 101, 110, 116, 34, 58, 32, 34, 110,
     97, 118, 105, 103, 97, 116, 105, 111, 110, 32, 3627, 3619, 3639, 3629, 32, 99, 111,
     110, 118, 101, 114, 115, 97, 116, 105, 111, 110, 34, 44, 10, 32, 32, 32, 32, 34,
     108, 111, 99, 97, 116, 105, 111, 110, 34, 58, 32, 34, 3594, 3639, 3656, 3629, 3626,
     3606, 3634, 3609, 3607, 3637, 3656, 32, 40, 3606, 3657, 3634, 32, 105, 110, 116,
     101, 110, 116, 32, 3648, 3611, 3655, 3609, 32, 110, 97, 118, 105, 103, 97, 116,
     105, 111, 110, 41, 34, 10, 125]"

section \<open>The session store: \<^verbatim>\<open>mcp/context_builder.py\<close>\<close>

text \<open>
  One entry of \<^verbatim>\<open>conversation_history\<close>. The content is whatever the caller passes:
  the utterance (a \<^verbatim>\<open>str\<close>) for a user turn, the value under \<^verbatim>\<open>"response"\<close> of the
  decoded model output for an assistant turn.
\<close>

record turn =
  role :: ustr
  content :: json
  timestamp :: ustr

text \<open>
  The dict that \<^verbatim>\<open>create_session\<close> builds. Every key is set there and none is ever
  deleted, so a session is a record; a field that holds \<^verbatim>\<open>None\<close> is \<open>None\<close>.
\<close>

record session =
  session_id :: ustr
  student_id :: "ustr option"
  student_name :: "ustr option"
  conversation_history :: "turn list"
  current_location :: "ustr option"
  detected_faces :: "json list"
  environment_info :: "ustr \<rightharpoonup> json"
  created_at :: ustr
  last_updated :: ustr

text \<open>
  The state of the process: the sessions of the \<^verbatim>\<open>ContextBuilder\<close>, the number of times
  the clock has been read, and the calls made to the two collaborators (the memory
  search and the chat request to the language model), oldest first.
\<close>

datatype call =
    SearchMemory ustr int
  | ChatRequest "(ustr \<times> ustr) list" pyfloat int

record world =
  session_contexts :: "ustr \<rightharpoonup> session"
  clock_reads :: nat
  calls :: "call list"

text \<open>
  \<^verbatim>\<open>datetime.now().isoformat()\<close>: the clock \<open>clk\<close> gives the text of its \<open>k\<close>-th reading,
  whatever it is.
\<close>

type_synonym clock = "nat \<Rightarrow> ustr"

definition now :: "clock \<Rightarrow> world \<Rightarrow> ustr \<times> world" where
  "now clk w = (clk (clock_reads w), w\<lparr>clock_reads := Suc (clock_reads w)\<rparr>)"

definition create_session :: "clock \<Rightarrow> ustr \<Rightarrow> world \<Rightarrow> world" where
  "create_session clk sid w =
     (let (t1, w1) = now clk w;
          (t2, w2) = now clk w1
      in w2\<lparr>session_contexts := (session_contexts w2)(sid \<mapsto>
           \<lparr>session_id = sid,
            student_id = None,
            student_name = None,
            conversation_history = [],
            current_location = None,
            detected_faces = [],
            environment_info = Map.empty,
            created_at = t1,
            last_updated = t2\<rparr>)\<rparr>)"

text \<open>The guard that opens every mutator:
  \<^verbatim>\<open>if session_id not in self.session_contexts: self.create_session(session_id)\<close>.\<close>

definition ensure_session :: "clock \<Rightarrow> ustr \<Rightarrow> world \<Rightarrow> world" where
  "ensure_session clk sid w =
     (if session_contexts w sid = None then create_session clk sid w else w)"

text \<open>
  An assignment \<^verbatim>\<open>self.session_contexts[session_id][key] = value\<close>. It always follows
  the guard, so the session is there; on a missing session Python would raise KeyError
  and the state would stay as it is.
\<close>

definition assign :: "ustr \<Rightarrow> (session \<Rightarrow> session) \<Rightarrow> world \<Rightarrow> world" where
  "assign sid f w =
     (case session_contexts w sid of
        None \<Rightarrow> w
      | Some s \<Rightarrow> w\<lparr>session_contexts := (session_contexts w)(sid \<mapsto> f s)\<rparr>)"

definition update_student_identity :: "clock \<Rightarrow> ustr \<Rightarrow> ustr \<Rightarrow> ustr \<Rightarrow> world \<Rightarrow> world" where
  "update_student_identity clk sid stid name w =
     (let w1 = ensure_session clk sid w;
          w2 = assign sid (\<lambda>s. s\<lparr>student_id := Some stid\<rparr>) w1;
          w3 = assign sid (\<lambda>s. s\<lparr>student_name := Some name\<rparr>) w2;
          (t, w4) = now clk w3
      in assign sid (\<lambda>s. s\<lparr>last_updated := t\<rparr>) w4)"

definition max_history :: nat where
  "max_history = 10"

definition add_conversation_turn :: "clock \<Rightarrow> ustr \<Rightarrow> ustr \<Rightarrow> json \<Rightarrow> world \<Rightarrow> world" where
  "add_conversation_turn clk sid r c w =
     (let w1 = ensure_session clk sid w;
          (t, w2) = now clk w1;
          new_turn = \<lparr>role = r, content = c, timestamp = t\<rparr>;
          w3 = assign sid (\<lambda>s. s\<lparr>conversation_history := conversation_history s @ [new_turn]\<rparr>) w2;
          w4 = assign sid (\<lambda>s.
                 if length (conversation_history s) > max_history
                 then s\<lparr>conversation_history := last_n max_history (conversation_history s)\<rparr>
                 else s) w3;
          (t', w5) = now clk w4
      in assign sid (\<lambda>s. s\<lparr>last_updated := t'\<rparr>) w5)"

definition update_location :: "clock \<Rightarrow> ustr \<Rightarrow> ustr \<Rightarrow> world \<Rightarrow> world" where
  "update_location clk sid loc w =
     (let w1 = ensure_session clk sid w;
          w2 = assign sid (\<lambda>s. s\<lparr>current_location := Some loc\<rparr>) w1;
          (t, w3) = now clk w2
      in assign sid (\<lambda>s. s\<lparr>last_updated := t\<rparr>) w3)"

text \<open>\<^verbatim>\<open>dict.update\<close>: the entries of \<open>env_data\<close> are added and win over the old ones.\<close>

definition update_environment :: "clock \<Rightarrow> ustr \<Rightarrow> (ustr \<rightharpoonup> json) \<Rightarrow> world \<Rightarrow> world" where
  "update_environment clk sid env_data w =
     (let w1 = ensure_session clk sid w;
          w2 = assign sid (\<lambda>s. s\<lparr>environment_info := environment_info s ++ env_data\<rparr>) w1;
          (t, w3) = now clk w2
      in assign sid (\<lambda>s. s\<lparr>last_updated := t\<rparr>) w3)"

definition get_session :: "ustr \<Rightarrow> world \<Rightarrow> session option" where
  "get_session sid w = session_contexts w sid"

definition clear_session :: "ustr \<Rightarrow> world \<Rightarrow> world" where
  "clear_session sid w =
     (if session_contexts w sid \<noteq> None
      then w\<lparr>session_contexts := (session_contexts w)(sid := None)\<rparr>
      else w)"

subsection \<open>Assembling the context\<close>

text \<open>A record of the memory search, as \<^verbatim>\<open>MilvusClient.search_memory\<close> returns it.\<close>

record memory =
  mem_text :: ustr
  mem_score :: pyfloat
  mem_type :: ustr
  mem_student_id :: ustr
  mem_timestamp :: int

text \<open>An entry of \<^verbatim>\<open>relevant_memories\<close>: the keys \<^verbatim>\<open>content\<close>, \<^verbatim>\<open>relevance_score\<close>
  and \<^verbatim>\<open>type\<close>.\<close>

record context_memory =
  cm_content :: ustr
  relevance_score :: pyfloat
  cm_type :: ustr

text \<open>The dict under \<^verbatim>\<open>student_info\<close>: the keys \<^verbatim>\<open>id\<close> and \<^verbatim>\<open>name\<close>.\<close>

record student_info =
  info_id :: "ustr option"
  info_name :: "ustr option"

text \<open>The dict \<^verbatim>\<open>llm_context\<close>; its keys with the prefix \<open>lc\<close>.\<close>

record llm_context =
  lc_student_info :: student_info
  lc_conversation_history :: "turn list"
  lc_current_location :: "ustr option"
  lc_environment :: "ustr \<rightharpoonup> json"
  lc_relevant_memories :: "context_memory list"

definition as_context_memory :: "memory \<Rightarrow> context_memory" where
  "as_context_memory mem =
     \<lparr>cm_content = mem_text mem, relevance_score = mem_score mem, cm_type = mem_type mem\<rparr>"

text \<open>
  \<^verbatim>\<open>build_llm_context\<close>. The session dict holds every key since its creation, so each
  \<^verbatim>\<open>ctx.get(key, default)\<close> returns the stored value, \<^verbatim>\<open>None\<close> included, and never its
  default. The lookup \<^verbatim>\<open>self.session_contexts[session_id]\<close> follows the guard; the result
  \<open>None\<close> stands for the KeyError of a missing session.
\<close>

definition build_llm_context ::
  "clock \<Rightarrow> ustr \<Rightarrow> memory list option \<Rightarrow> world \<Rightarrow> llm_context option \<times> world" where
  "build_llm_context clk sid retrieved_memories w =
     (let w1 = ensure_session clk sid w in
      case session_contexts w1 sid of
        None \<Rightarrow> (None, w1)
      | Some ctx \<Rightarrow>
          (let llm_context =
                 \<lparr>lc_student_info = \<lparr>info_id = student_id ctx, info_name = student_name ctx\<rparr>,
                  lc_conversation_history = last_n 5 (conversation_history ctx),
                  lc_current_location = current_location ctx,
                  lc_environment = environment_info ctx,
                  lc_relevant_memories = []\<rparr>;
               llm_context' =
                 (case retrieved_memories of
                    None \<Rightarrow> llm_context
                  | Some mems \<Rightarrow>
                      if mems \<noteq> []
                      then llm_context\<lparr>lc_relevant_memories := map as_context_memory (take 3 mems)\<rparr>
                      else llm_context)
           in (Some llm_context', w1)))"

text \<open>The four blocks of \<^verbatim>\<open>format_context_as_prompt\<close>, each giving the lines it appends
  to \<^verbatim>\<open>prompt_parts\<close>.\<close>

definition identity_section :: "llm_context \<Rightarrow> ustr list" where
  "identity_section lc =
     (let student_name = info_name (lc_student_info lc) in
      if student_name \<noteq> Some (ascii ''unknown'')
      then [greeting_prefix @ fstr_opt student_name]
      else [])"

definition location_section :: "llm_context \<Rightarrow> ustr list" where
  "location_section lc =
     (case lc_current_location lc of
        None \<Rightarrow> []
      | Some location \<Rightarrow>
          if location \<noteq> [] \<and> location \<noteq> ascii ''unknown''
          then [location_prefix @ location]
          else [])"

definition memory_line :: "nat \<times> context_memory \<Rightarrow> ustr" where
  "memory_line im = dec (fst im) @ ascii ''. '' @ cm_content (snd im)"

definition memories_section :: "llm_context \<Rightarrow> ustr list" where
  "memories_section lc =
     (let memories = lc_relevant_memories lc in
      if memories \<noteq> []
      then memories_header # map memory_line (List.enumerate 1 memories)
      else [])"

definition turn_line :: "(json \<Rightarrow> ustr) \<Rightarrow> turn \<Rightarrow> ustr" where
  "turn_line py_str t =
     (let role_thai = (if role t = ascii ''user'' then role_student else role_robot)
      in role_thai @ ascii '': '' @ fstr py_str (content t))"

definition history_section :: "(json \<Rightarrow> ustr) \<Rightarrow> llm_context \<Rightarrow> ustr list" where
  "history_section py_str lc =
     (let history = lc_conversation_history lc in
      if history \<noteq> []
      then history_header # map (turn_line py_str) (last_n 3 history)
      else [])"

definition prompt_parts :: "(json \<Rightarrow> ustr) \<Rightarrow> llm_context \<Rightarrow> ustr list" where
  "prompt_parts py_str lc =
     identity_section lc @ location_section lc @ memories_section lc @ history_section py_str lc"

definition format_context_as_prompt :: "(json \<Rightarrow> ustr) \<Rightarrow> llm_context \<Rightarrow> ustr" where
  "format_context_as_prompt py_str lc = join [10] (prompt_parts py_str lc)"

section \<open>The language-model client: \<^verbatim>\<open>llm/typhoon_client.py\<close>\<close>

text \<open>\<^verbatim>\<open>x in s\<close> on strings is \<^const>\<open>sublist\<close>. \<^verbatim>\<open>s.split(sep)\<close> cuts at the occurrences of
  \<open>sep\<close>, leftmost first and without overlap; Python refuses an empty separator, and the
  program splits on two constants only.\<close>

function py_split :: "'a list \<Rightarrow> 'a list \<Rightarrow> 'a list list" where
  "py_split sep [] = [[]]"
| "py_split sep (c # cs) =
     (if sep \<noteq> [] \<and> prefix sep (c # cs)
      then [] # py_split sep (drop (length sep) (c # cs))
      else (case py_split sep cs of
              [] \<Rightarrow> [[c]]
            | x # xs \<Rightarrow> (c # x) # xs))"
  by pat_completeness auto
termination
  by (relation "measure (\<lambda>(sep, s). length s)") auto

text \<open>The characters \<^verbatim>\<open>str.strip()\<close> removes: those for which \<^verbatim>\<open>str.isspace\<close> holds.\<close>

definition is_space :: "nat \<Rightarrow> bool" where
  "is_space c \<longleftrightarrow>
     (9 \<le> c \<and> c \<le> 13) \<or> (28 \<le> c \<and> c \<le> 32) \<or> c = 133 \<or> c = 160 \<or> c = 5760 \<or>
     (8192 \<le> c \<and> c \<le> 8202) \<or> c = 8232 \<or> c = 8233 \<or> c = 8239 \<or> c = 8287 \<or> c = 12288"

definition py_strip :: "ustr \<Rightarrow> ustr" where
  "py_strip s = rev (dropWhile is_space (rev (dropWhile is_space s)))"

text \<open>\<^verbatim>\<open>d.get(key, default)\<close> on a decoded object.\<close>

definition dict_get :: "(ustr \<times> json) list \<Rightarrow> ustr \<Rightarrow> json \<Rightarrow> json" where
  "dict_get d k dflt = (case map_of d k of None \<Rightarrow> dflt | Some v \<Rightarrow> v)"

record typhoon_client =
  api_url :: ustr
  model :: ustr

definition chat_endpoint :: "typhoon_client \<Rightarrow> ustr" where
  "chat_endpoint tc = api_url tc @ ascii ''/api/chat''"

text \<open>The JSON body of the chat request.\<close>

record chat_payload =
  p_model :: ustr
  p_messages :: "(ustr \<times> ustr) list"
  p_stream :: bool
  p_temperature :: pyfloat
  p_num_predict :: int

text \<open>
  What \<^verbatim>\<open>requests.post\<close> gives: an exception, or a response with its status code and
  the value of \<^verbatim>\<open>response.json()\<close> (\<open>None\<close> when the body does not decode).
\<close>

datatype http_result = RequestFailed | Response int "json option"

type_synonym http_post = "ustr \<Rightarrow> chat_payload \<Rightarrow> http_result"

text \<open>
  The text \<^verbatim>\<open>chat\<close> returns for a result of the request:
  \<^verbatim>\<open>result.get("message", {}).get("content", "").strip()\<close> on status 200. A value without
  the method called on it raises AttributeError, which \<^verbatim>\<open>chat\<close> catches like every other
  exception and answers with \<^verbatim>\<open>None\<close>.
\<close>

definition chat_text :: "http_result \<Rightarrow> ustr option" where
  "chat_text res =
     (case res of
        RequestFailed \<Rightarrow> None
      | Response status_code body \<Rightarrow>
          if status_code = 200 then
            (case body of
               Some (JObject result) \<Rightarrow>
                 (case dict_get result (ascii ''message'') (JObject []) of
                    JObject message \<Rightarrow>
                      (case dict_get message (ascii ''content'') (JString []) of
                         JString c \<Rightarrow> Some (py_strip c)
                       | _ \<Rightarrow> None)
                  | _ \<Rightarrow> None)
             | _ \<Rightarrow> None)
          else None)"

definition chat ::
  "typhoon_client \<Rightarrow> http_post \<Rightarrow> (ustr \<times> ustr) list \<Rightarrow> pyfloat \<Rightarrow> int \<Rightarrow> world
     \<Rightarrow> ustr option \<times> world" where
  "chat tc post messages temperature max_tokens w =
     (let payload = \<lparr>p_model = model tc, p_messages = messages, p_stream = False,
                     p_temperature = temperature, p_num_predict = max_tokens\<rparr>;
          w' = w\<lparr>calls := calls w @ [ChatRequest messages temperature max_tokens]\<rparr>
      in (chat_text (post (chat_endpoint tc) payload), w'))"

definition fence :: ustr where
  "fence = ascii ''```''"

definition fence_json :: ustr where
  "fence_json = ascii ''```json''"

text \<open>The removal of the markdown code block. The index 1 is in range since the
  separator occurs in the text, and a split has always a part 0.\<close>

definition extract_json_text :: "ustr \<Rightarrow> ustr" where
  "extract_json_text response =
     (if sublist fence_json response
      then py_strip (py_split fence (py_split fence_json response ! 1) ! 0)
      else if sublist fence response
      then py_strip (py_split fence (py_split fence response ! 1) ! 0)
      else response)"

text \<open>
  \<^verbatim>\<open>generate_structured\<close>, with \<open>json_loads\<close> for \<^verbatim>\<open>json.loads\<close>. The function returns
  \<^verbatim>\<open>None\<close>, here \<open>Inr JNull\<close>, when the chat gave no text or an empty one, and when the
  decoder raises JSONDecodeError, the one exception its \<^verbatim>\<open>except\<close> clause names; a text
  that decodes to \<^verbatim>\<open>null\<close> gives the same \<^verbatim>\<open>None\<close>. Any other exception of the decoder
  leaves the function: \<open>Inl\<close>.
\<close>

definition generate_structured ::
  "typhoon_client \<Rightarrow> http_post \<Rightarrow> (ustr \<Rightarrow> loads_result) \<Rightarrow> ustr \<Rightarrow> ustr \<Rightarrow> pyfloat \<Rightarrow> world
     \<Rightarrow> (py_exception + json) \<times> world" where
  "generate_structured tc post json_loads system_prompt' user_message temperature w =
     (let messages = [(ascii ''system'', system_prompt'), (ascii ''user'', user_message)];
          (response, w') = chat tc post messages temperature 512 w
      in case response of
           None \<Rightarrow> (Inr JNull, w')
         | Some r \<Rightarrow>
             if r \<noteq> [] then
               (case json_loads (extract_json_text r) of
                  Loaded v \<Rightarrow> (Inr v, w')
                | JSONDecodeError \<Rightarrow> (Inr JNull, w')
                | Raises e \<Rightarrow> (Inl e, w'))
             else (Inr JNull, w'))"

section \<open>The speech endpoint: \<^verbatim>\<open>api/main.py\<close>\<close>

record speech_input =
  speech_session_id :: ustr
  speech_text :: ustr
  confidence :: pyfloat

record navigation_goal_dict =
  target_location :: json
  priority :: ustr

record chat_response =
  resp_session_id :: ustr
  response_text :: ustr
  intent :: ustr
  should_navigate :: bool
  navigation_goal :: "navigation_goal_dict option"

text \<open>The entries of \<^verbatim>\<open>settings.yaml\<close> that \<^verbatim>\<open>process_speech\<close> reads.\<close>

record config =
  confidence_threshold :: pyfloat
  retrieval_top_k :: int
  temperature :: pyfloat

text \<open>
  What \<^verbatim>\<open>process_speech\<close> works with beside the session store: the clock, the memory
  search (\<^verbatim>\<open>search_memory\<close> catches its own exceptions and returns a list), the client of
  the language model with its HTTP request and its JSON decoder, the printing of
  non-string values, and the validation by \<^verbatim>\<open>ChatResponse\<close> of a value that is not a
  \<^verbatim>\<open>str\<close> given for a field declared \<^verbatim>\<open>str\<close> (\<open>None\<close> when it is refused).
\<close>

record services =
  sv_clk :: clock
  search_memory :: "ustr \<Rightarrow> int \<Rightarrow> memory list"
  typhoon :: typhoon_client
  sv_post :: http_post
  sv_json_loads :: "ustr \<Rightarrow> loads_result"
  sv_py_str :: "json \<Rightarrow> ustr"
  sv_coerce_str :: "json \<Rightarrow> ustr option"

text \<open>\<^verbatim>\<open>HTTPException(status_code, detail)\<close>; the detail is the text of the exception
  caught, given here by the exception.\<close>

datatype http_exception = HTTPException int py_exception

definition no_response_text :: ustr where
  "no_response_text = ascii ''LLM returned no response''"

text \<open>The validation of a field declared \<^verbatim>\<open>str\<close>: a \<^verbatim>\<open>str\<close> is taken as it is.\<close>

definition str_field :: "(json \<Rightarrow> ustr option) \<Rightarrow> json \<Rightarrow> ustr option" where
  "str_field coerce v = (case v of JString s \<Rightarrow> Some s | _ \<Rightarrow> coerce v)"

text \<open>
  \<^verbatim>\<open>process_speech\<close>, from its call to its return or to the HTTPException that its
  handler raises for any exception of its body. The body raises where the model's output
  is no output (\<^verbatim>\<open>not llm_output\<close>), where \<^verbatim>\<open>.get\<close> is called on a value that is not a dict,
  where \<^verbatim>\<open>ChatResponse\<close> refuses a field, and where an exception leaves
  \<^verbatim>\<open>generate_structured\<close>. What the framework does with the returned response is not part
  of the function.
\<close>

definition process_speech ::
  "services \<Rightarrow> config \<Rightarrow> speech_input \<Rightarrow> world \<Rightarrow> (http_exception + chat_response) \<times> world" where
  "process_speech sv cfg speech w =
     (if float_lt (confidence speech) (confidence_threshold cfg) then
        (Inr \<lparr>resp_session_id = speech_session_id speech,
              response_text = clarification_text,
              intent = ascii ''clarification'',
              should_navigate = False,
              navigation_goal = None\<rparr>, w)
      else
        (let w1 = add_conversation_turn (sv_clk sv) (speech_session_id speech) (ascii ''user'')
                    (JString (speech_text speech)) w;
             memories = search_memory sv (speech_text speech) (retrieval_top_k cfg);
             w2 = w1\<lparr>calls := calls w1 @ [SearchMemory (speech_text speech) (retrieval_top_k cfg)]\<rparr>;
             (built, w3) = build_llm_context (sv_clk sv) (speech_session_id speech) (Some memories) w2
         in case built of
              None \<Rightarrow> (Inl (HTTPException 500 KeyError), w3)
            | Some llm_context \<Rightarrow>
               (let context_text = format_context_as_prompt (sv_py_str sv) llm_context;
                    user_message = context_text @ student_says @ speech_text speech @ bot_says;
                    (generated, w4) = generate_structured (typhoon sv) (sv_post sv) (sv_json_loads sv)
                                        system_prompt user_message (temperature cfg) w3
                in case generated of
                     Inl e \<Rightarrow> (Inl (HTTPException 500 e), w4)
                   | Inr llm_output \<Rightarrow>
                       if \<not> truthy llm_output then
                         (Inl (HTTPException 500 (Exception no_response_text)), w4)
                       else
                         (case llm_output of
                            JObject d \<Rightarrow>
                              (let response_text' = dict_get d (ascii ''response'')
                                                      (JString default_response_text);
                                   intent' = dict_get d (ascii ''intent'')
                                               (JString (ascii ''conversation''));
                                   location = dict_get d (ascii ''location'') JNull;
                                   w5 = add_conversation_turn (sv_clk sv) (speech_session_id speech)
                                          (ascii ''assistant'') response_text' w4;
                                   (should_navigate', navigation_goal') =
                                     (if intent' = JString (ascii ''navigation'') \<and> truthy location
                                      then (True, Some \<lparr>target_location = location,
                                                        priority = ascii ''normal''\<rparr>)
                                      else (False, None))
                               in case (str_field (sv_coerce_str sv) response_text',
                                        str_field (sv_coerce_str sv) intent') of
                                    (Some rt, Some it) \<Rightarrow>
                                      (Inr \<lparr>resp_session_id = speech_session_id speech,
                                            response_text = rt,
                                            intent = it,
                                            should_navigate = should_navigate',
                                            navigation_goal = navigation_goal'\<rparr>, w5)
                                  | _ \<Rightarrow> (Inl (HTTPException 500 ValidationError), w5))
                          | _ \<Rightarrow> (Inl (HTTPException 500 AttributeError), w4)))))"

section \<open>Notions used to state the properties\<close>

text \<open>The conversation history of a session; a session that does not exist has none.\<close>

definition history_of :: "ustr \<Rightarrow> world \<Rightarrow> turn list" where
  "history_of sid w =
     (case session_contexts w sid of None \<Rightarrow> [] | Some s \<Rightarrow> conversation_history s)"

text \<open>Successive calls of \<^verbatim>\<open>add_conversation_turn\<close> on one session, one per pair of a
  role and a content, first pair first.\<close>

fun add_turns :: "clock \<Rightarrow> ustr \<Rightarrow> (ustr \<times> json) list \<Rightarrow> world \<Rightarrow> world" where
  "add_turns clk sid [] w = w"
| "add_turns clk sid ((r, c) # rest) w =
     add_turns clk sid rest (add_conversation_turn clk sid r c w)"

text \<open>What a caller gave for a turn: its role and its content.\<close>

definition turn_key :: "turn \<Rightarrow> ustr \<times> json" where
  "turn_key t = (role t, content t)"

text \<open>The state of a process that has just started, and sample values for the
  examples: a clock whose \<open>k\<close>-th reading prints \<open>k\<close>, and a session identifier.\<close>

definition w_empty :: world where
  "w_empty = \<lparr>session_contexts = Map.empty, clock_reads = 0, calls = []\<rparr>"

definition clk0 :: clock where
  "clk0 k = dec k"

definition s1 :: ustr where
  "s1 = ascii ''s1''"

definition twelve_turns :: "(ustr \<times> json) list" where
  "twelve_turns =
     [(ascii ''user'', JString (ascii ''q1'')), (ascii ''assistant'', JString (ascii ''a1'')),
      (ascii ''user'', JString (ascii ''q2'')), (ascii ''assistant'', JString (ascii ''a2'')),
      (ascii ''user'', JString (ascii ''q3'')), (ascii ''assistant'', JString (ascii ''a3'')),
      (ascii ''user'', JString (ascii ''q4'')), (ascii ''assistant'', JString (ascii ''a4'')),
      (ascii ''user'', JString (ascii ''q5'')), (ascii ''assistant'', JString (ascii ''a5'')),
      (ascii ''user'', JString (ascii ''q6'')), (ascii ''assistant'', JString (ascii ''a6''))]"

definition sample_session :: session where
  "sample_session =
     \<lparr>session_id = s1,
      student_id = Some (ascii ''6401''),
      student_name = Some (ascii ''Somchai''),
      conversation_history =
        [\<lparr>role = ascii ''user'', content = JString (ascii ''hello''), timestamp = ascii ''t5''\<rparr>],
      current_location = Some (ascii ''lobby''),
      detected_faces = [],
      environment_info = [ascii ''noise'' \<mapsto> JInt 3, ascii ''light'' \<mapsto> JString (ascii ''dim'')],
      created_at = ascii ''t0'',
      last_updated = ascii ''t6''\<rparr>"

definition w_sample :: world where
  "w_sample = \<lparr>session_contexts = [s1 \<mapsto> sample_session], clock_reads = 7, calls = []\<rparr>"

text \<open>A response of the model server with status 200 and the given text as the content
  of its message, and the server that gives it to every request.\<close>

definition ollama_reply :: "ustr \<Rightarrow> http_result" where
  "ollama_reply raw =
     Response 200 (Some (JObject [(ascii ''message'',
       JObject [(ascii ''role'', JString (ascii ''assistant'')),
                (ascii ''content'', JString raw)])]))"

definition always_reply :: "ustr \<Rightarrow> http_post" where
  "always_reply raw url payload = ollama_reply raw"

text \<open>A payload in a code block labelled json, and in a code block without label: the
  opening line, the payload, the closing line.\<close>

definition fenced_json :: "ustr \<Rightarrow> ustr" where
  "fenced_json p = fence_json @ [10] @ p @ [10] @ fence"

definition fenced :: "ustr \<Rightarrow> ustr" where
  "fenced p = fence @ [10] @ p @ [10] @ fence"

text \<open>Two payloads, and a decoder for the examples: it decodes as \<^verbatim>\<open>json.loads\<close> does the
  three texts listed, and raises JSONDecodeError on every other text; those the examples
  hand to it beside the three are not JSON.\<close>

definition payload_hi :: ustr where
  "payload_hi = ascii ''{\"response\": \"hi\", \"intent\": \"conversation\"}''"

definition payload_ticks :: ustr where
  "payload_ticks = ascii ''{\"response\":\"```1```\"}''"

definition decoded_hi :: json where
  "decoded_hi = JObject [(ascii ''response'', JString (ascii ''hi'')),
                         (ascii ''intent'', JString (ascii ''conversation''))]"

definition sample_loads :: "ustr \<Rightarrow> loads_result" where
  "sample_loads s =
     (if s = payload_hi then Loaded decoded_hi
      else if s = payload_ticks
      then Loaded (JObject [(ascii ''response'', JString (ascii ''```1```''))])
      else if s = ascii ''1'' then Loaded (JInt 1)
      else JSONDecodeError)"

definition tc0 :: typhoon_client where
  "tc0 = \<lparr>api_url = ascii ''http://localhost:11434'', model = ascii ''typhoon:7b-instruct''\<rparr>"


text \<open>
  The steps of \<^verbatim>\<open>process_speech\<close> on an accepted request, named one by one: the state
  once the user's turn is stored and the memories are searched, the user message built
  from the context, the chat request sent, the state after it, the text that \<^verbatim>\<open>chat\<close>
  returns for it, and the value that \<^verbatim>\<open>generate_structured\<close> returns.
\<close>

definition heard :: "services \<Rightarrow> config \<Rightarrow> speech_input \<Rightarrow> world \<Rightarrow> world" where
  "heard sv cfg speech w =
     (let w1 = add_conversation_turn (sv_clk sv) (speech_session_id speech) (ascii ''user'')
                 (JString (speech_text speech)) w
      in w1\<lparr>calls := calls w1 @ [SearchMemory (speech_text speech) (retrieval_top_k cfg)]\<rparr>)"

definition user_message_of :: "services \<Rightarrow> config \<Rightarrow> speech_input \<Rightarrow> world \<Rightarrow> ustr" where
  "user_message_of sv cfg speech w =
     (case fst (build_llm_context (sv_clk sv) (speech_session_id speech)
                 (Some (search_memory sv (speech_text speech) (retrieval_top_k cfg)))
                 (heard sv cfg speech w)) of
        None \<Rightarrow> []
      | Some lc \<Rightarrow>
          format_context_as_prompt (sv_py_str sv) lc @ student_says @ speech_text speech @ bot_says)"

definition chat_request_of :: "services \<Rightarrow> config \<Rightarrow> speech_input \<Rightarrow> world \<Rightarrow> call" where
  "chat_request_of sv cfg speech w =
     ChatRequest [(ascii ''system'', system_prompt), (ascii ''user'', user_message_of sv cfg speech w)]
       (temperature cfg) 512"

definition asked :: "services \<Rightarrow> config \<Rightarrow> speech_input \<Rightarrow> world \<Rightarrow> world" where
  "asked sv cfg speech w =
     (heard sv cfg speech w)\<lparr>calls := calls (heard sv cfg speech w) @ [chat_request_of sv cfg speech w]\<rparr>"

definition llm_reply :: "services \<Rightarrow> config \<Rightarrow> speech_input \<Rightarrow> world \<Rightarrow> ustr option" where
  "llm_reply sv cfg speech w =
     chat_text (sv_post sv (chat_endpoint (typhoon sv))
       \<lparr>p_model = model (typhoon sv),
        p_messages = [(ascii ''system'', system_prompt),
                      (ascii ''user'', user_message_of sv cfg speech w)],
        p_stream = False,
        p_temperature = temperature cfg,
        p_num_predict = 512\<rparr>)"

definition llm_output_of ::
  "services \<Rightarrow> config \<Rightarrow> speech_input \<Rightarrow> world \<Rightarrow> py_exception + json" where
  "llm_output_of sv cfg speech w =
     (case llm_reply sv cfg speech w of
        None \<Rightarrow> Inr JNull
      | Some r \<Rightarrow>
          if r \<noteq> [] then
            (case sv_json_loads sv (extract_json_text r) of
               Loaded v \<Rightarrow> Inr v
             | JSONDecodeError \<Rightarrow> Inr JNull
             | Raises e \<Rightarrow> Inl e)
          else Inr JNull)"

text \<open>The rest of \<^verbatim>\<open>process_speech\<close>, from the test of the model's output on, as a
  function of that output and of the state after the chat request; and the rest from
  the return of \<^verbatim>\<open>generate_structured\<close> on, where an exception that left it goes to the
  handler.\<close>

definition answer ::
  "services \<Rightarrow> speech_input \<Rightarrow> json \<Rightarrow> world \<Rightarrow> (http_exception + chat_response) \<times> world" where
  "answer sv speech llm_output w4 =
     (if \<not> truthy llm_output then
        (Inl (HTTPException 500 (Exception no_response_text)), w4)
      else
        (case llm_output of
           JObject d \<Rightarrow>
             (let response_text' = dict_get d (ascii ''response'') (JString default_response_text);
                  intent' = dict_get d (ascii ''intent'') (JString (ascii ''conversation''));
                  location = dict_get d (ascii ''location'') JNull;
                  w5 = add_conversation_turn (sv_clk sv) (speech_session_id speech)
                         (ascii ''assistant'') response_text' w4;
                  (should_navigate', navigation_goal') =
                    (if intent' = JString (ascii ''navigation'') \<and> truthy location
                     then (True, Some \<lparr>target_location = location,
                                       priority = ascii ''normal''\<rparr>)
                     else (False, None))
              in case (str_field (sv_coerce_str sv) response_text',
                       str_field (sv_coerce_str sv) intent') of
                   (Some rt, Some it) \<Rightarrow>
                     (Inr \<lparr>resp_session_id = speech_session_id speech,
                           response_text = rt,
                           intent = it,
                           should_navigate = should_navigate',
                           navigation_goal = navigation_goal'\<rparr>, w5)
                 | _ \<Rightarrow> (Inl (HTTPException 500 ValidationError), w5))
         | _ \<Rightarrow> (Inl (HTTPException 500 AttributeError), w4)))"

definition finish ::
  "services \<Rightarrow> speech_input \<Rightarrow> py_exception + json \<Rightarrow> world
     \<Rightarrow> (http_exception + chat_response) \<times> world" where
  "finish sv speech generated w4 =
     (case generated of
        Inl e \<Rightarrow> (Inl (HTTPException 500 e), w4)
      | Inr llm_output \<Rightarrow> answer sv speech llm_output w4)"

text \<open>The user's turn as an accepted request stores it.\<close>

definition user_turn_of :: "services \<Rightarrow> speech_input \<Rightarrow> world \<Rightarrow> turn" where
  "user_turn_of sv speech w =
     \<lparr>role = ascii ''user'', content = JString (speech_text speech),
      timestamp = sv_clk sv (clock_reads (ensure_session (sv_clk sv) (speech_session_id speech) w))\<rparr>"

text \<open>The failures of the model: \<^verbatim>\<open>chat\<close> returns \<^verbatim>\<open>None\<close> or an empty text; \<^verbatim>\<open>chat\<close>
  returns a text on which \<^verbatim>\<open>json.loads\<close> raises JSONDecodeError; \<^verbatim>\<open>chat\<close> returns a text on
  which \<^verbatim>\<open>json.loads\<close> raises the exception \<open>e\<close>, another one.\<close>

definition no_response :: "services \<Rightarrow> config \<Rightarrow> speech_input \<Rightarrow> world \<Rightarrow> bool" where
  "no_response sv cfg speech w \<longleftrightarrow>
     llm_reply sv cfg speech w = None \<or> llm_reply sv cfg speech w = Some []"

definition malformed_response :: "services \<Rightarrow> config \<Rightarrow> speech_input \<Rightarrow> world \<Rightarrow> bool" where
  "malformed_response sv cfg speech w \<longleftrightarrow>
     (case llm_reply sv cfg speech w of
        None \<Rightarrow> False
      | Some r \<Rightarrow> r \<noteq> [] \<and> sv_json_loads sv (extract_json_text r) = JSONDecodeError)"

definition decoder_raises ::
  "services \<Rightarrow> config \<Rightarrow> speech_input \<Rightarrow> world \<Rightarrow> py_exception \<Rightarrow> bool" where
  "decoder_raises sv cfg speech w e \<longleftrightarrow>
     (case llm_reply sv cfg speech w of
        None \<Rightarrow> False
      | Some r \<Rightarrow> r \<noteq> [] \<and> sv_json_loads sv (extract_json_text r) = Raises e)"

text \<open>Sample services: a model server that cannot be reached, no memories, a
  validation that refuses every value that is not a \<^verbatim>\<open>str\<close>; then the same with a
  server that answers in prose, and with servers that answer with a JSON object.\<close>

definition never_reply :: http_post where
  "never_reply url payload = RequestFailed"

definition no_memories :: "ustr \<Rightarrow> int \<Rightarrow> memory list" where
  "no_memories query top_k = []"

definition str_unused :: "json \<Rightarrow> ustr" where
  "str_unused v = []"

definition refuse :: "json \<Rightarrow> ustr option" where
  "refuse v = None"

definition garbled :: ustr where
  "garbled = ascii ''I am not sure''"

definition sv_down :: services where
  "sv_down = \<lparr>sv_clk = clk0, search_memory = no_memories, typhoon = tc0, sv_post = never_reply,
              sv_json_loads = sample_loads, sv_py_str = str_unused, sv_coerce_str = refuse\<rparr>"

definition sv_garbled :: services where
  "sv_garbled = sv_down\<lparr>sv_post := always_reply garbled\<rparr>"

definition cfg0 :: config where
  "cfg0 = \<lparr>confidence_threshold = Fin (7/10), retrieval_top_k = 5, temperature = Fin (7/10)\<rparr>"

definition speech_clear :: speech_input where
  "speech_clear = \<lparr>speech_session_id = s1, speech_text = ascii ''hello'', confidence = Fin (95/100)\<rparr>"

definition speech_faint :: speech_input where
  "speech_faint = \<lparr>speech_session_id = s1, speech_text = ascii ''hello'', confidence = Fin (55/100)\<rparr>"

definition speech_edge :: speech_input where
  "speech_edge = \<lparr>speech_session_id = s1, speech_text = ascii ''hello'', confidence = Fin (7/10)\<rparr>"

definition payload_nav :: ustr where
  "payload_nav = ascii ''{\"response\": \"ok\", \"intent\": \"navigation\", \"location\": \"library\"}''"

definition decoded_nav :: json where
  "decoded_nav = JObject [(ascii ''response'', JString (ascii ''ok'')),
                          (ascii ''intent'', JString (ascii ''navigation'')),
                          (ascii ''location'', JString (ascii ''library''))]"

definition payload_nowhere :: ustr where
  "payload_nowhere = ascii ''{\"response\": \"ok\", \"intent\": \"navigation\", \"location\": \"\"}''"

definition decoded_nowhere :: json where
  "decoded_nowhere = JObject [(ascii ''response'', JString (ascii ''ok'')),
                              (ascii ''intent'', JString (ascii ''navigation'')),
                              (ascii ''location'', JString [])]"

definition payload_talk :: ustr where
  "payload_talk = ascii ''{\"response\": \"ok\", \"intent\": \"conversation\", \"location\": \"library\"}''"

definition decoded_talk :: json where
  "decoded_talk = JObject [(ascii ''response'', JString (ascii ''ok'')),
                           (ascii ''intent'', JString (ascii ''conversation'')),
                           (ascii ''location'', JString (ascii ''library''))]"

definition payload_empty :: ustr where
  "payload_empty = ascii ''{}''"

definition payload_null :: ustr where
  "payload_null = ascii ''{\"response\": null, \"intent\": \"navigation\", \"location\": \"library\"}''"

definition decoded_null :: json where
  "decoded_null = JObject [(ascii ''response'', JNull),
                           (ascii ''intent'', JString (ascii ''navigation'')),
                           (ascii ''location'', JString (ascii ''library''))]"

definition nav_loads :: "ustr \<Rightarrow> loads_result" where
  "nav_loads s =
     (if s = payload_nav then Loaded decoded_nav
      else if s = payload_nowhere then Loaded decoded_nowhere
      else if s = payload_talk then Loaded decoded_talk
      else if s = payload_empty then Loaded (JObject [])
      else if s = payload_null then Loaded decoded_null
      else JSONDecodeError)"

definition sv_empty :: services where
  "sv_empty = sv_down\<lparr>sv_post := always_reply payload_empty, sv_json_loads := nav_loads\<rparr>"

definition sv_null :: services where
  "sv_null = sv_down\<lparr>sv_post := always_reply payload_null, sv_json_loads := nav_loads\<rparr>"

text \<open>A text of a thousand opening brackets, on which \<^verbatim>\<open>json.loads\<close> raises RecursionError,
  a decoder that does so, and a server that answers with this text.\<close>

definition deep :: ustr where
  "deep = replicate 1000 91"

definition deep_loads :: "ustr \<Rightarrow> loads_result" where
  "deep_loads s = (if s = deep then Raises RecursionError else sample_loads s)"

definition sv_deep :: services where
  "sv_deep = sv_down\<lparr>sv_post := always_reply deep, sv_json_loads := deep_loads\<rparr>"

text \<open>A session with six turns, and five records of a memory search.\<close>

definition busy_session :: session where
  "busy_session =
     \<lparr>session_id = s1,
      student_id = Some (ascii ''6401''),
      student_name = Some (ascii ''Somchai''),
      conversation_history =
        [\<lparr>role = ascii ''user'', content = JString (ascii ''q1''), timestamp = ascii ''t1''\<rparr>,
         \<lparr>role = ascii ''assistant'', content = JString (ascii ''a1''), timestamp = ascii ''t2''\<rparr>,
         \<lparr>role = ascii ''user'', content = JString (ascii ''q2''), timestamp = ascii ''t3''\<rparr>,
         \<lparr>role = ascii ''assistant'', content = JString (ascii ''a2''), timestamp = ascii ''t4''\<rparr>,
         \<lparr>role = ascii ''user'', content = JString (ascii ''q3''), timestamp = ascii ''t5''\<rparr>,
         \<lparr>role = ascii ''assistant'', content = JString (ascii ''a3''), timestamp = ascii ''t6''\<rparr>],
      current_location = Some (ascii ''lobby''),
      detected_faces = [],
      environment_info = Map.empty,
      created_at = ascii ''t0'',
      last_updated = ascii ''t6''\<rparr>"

definition w_busy :: world where
  "w_busy = \<lparr>session_contexts = [s1 \<mapsto> busy_session], clock_reads = 13, calls = []\<rparr>"

definition fact :: "ustr \<Rightarrow> memory" where
  "fact t = \<lparr>mem_text = t, mem_score = Fin 1, mem_type = ascii ''knowledge'',
             mem_student_id = [], mem_timestamp = 0\<rparr>"

definition five_memories :: "memory list" where
  "five_memories = [fact (ascii ''fact1''), fact (ascii ''fact2''), fact (ascii ''fact3''),
                    fact (ascii ''fact4''), fact (ascii ''fact5'')]"

definition sv_talk :: services where
  "sv_talk = sv_down\<lparr>sv_post := always_reply payload_talk, sv_json_loads := nav_loads\<rparr>"

definition sv_nav :: services where
  "sv_nav = sv_down\<lparr>sv_post := always_reply payload_nav, sv_json_loads := nav_loads\<rparr>"

definition sv_nowhere :: services where
  "sv_nowhere = sv_down\<lparr>sv_post := always_reply payload_nowhere, sv_json_loads := nav_loads\<rparr>"

section \<open>Properties of the session store\<close>

lemma ensure_session_present:
  "session_contexts (ensure_session clk sid w) sid \<noteq> None"
  by (simp add: ensure_session_def create_session_def now_def)

lemma ensure_session_existing:
  "session_contexts w sid = Some s \<Longrightarrow> ensure_session clk sid w = w"
  by (simp add: ensure_session_def)

lemma add_conversation_turn_existing:
  assumes "session_contexts w sid = Some s"
  shows "add_conversation_turn clk sid r c w =
    w\<lparr>session_contexts := (session_contexts w)(sid \<mapsto>
        s\<lparr>conversation_history :=
             (let h = conversation_history s @
                        [\<lparr>role = r, content = c, timestamp = clk (clock_reads w)\<rparr>]
              in if length h > max_history then last_n max_history h else h),
          last_updated := clk (Suc (clock_reads w))\<rparr>),
      clock_reads := Suc (Suc (clock_reads w))\<rparr>"
  using assms
  by (simp add: add_conversation_turn_def ensure_session_existing assign_def now_def Let_def)

lemma add_conversation_turn_absent:
  assumes "session_contexts w sid = None"
  shows "add_conversation_turn clk sid r c w =
    add_conversation_turn clk sid r c (create_session clk sid w)"
  using assms
  by (simp add: add_conversation_turn_def ensure_session_def create_session_def now_def)

lemma last_n_id: "length xs \<le> n \<Longrightarrow> last_n n xs = xs"
  by (simp add: last_n_def)

lemma length_last_n: "length (last_n n xs) = min (length xs) n"
  by (simp add: last_n_def)

lemma map_last_n: "map f (last_n n xs) = last_n n (map f xs)"
  by (simp add: last_n_def drop_map)

lemma last_n_append_last_n: "last_n n (last_n n xs @ ys) = last_n n (xs @ ys)"
proof -
  have "length xs + length ys - (length xs - n + n) + (length xs - n) =
        length xs + length ys - n"
    by arith
  then show ?thesis by (simp add: last_n_def)
qed

text \<open>One call appends the turn and keeps the last ten, whether or not the session
  existed.\<close>

lemma history_of_add:
  "history_of sid (add_conversation_turn clk sid r c w) =
     last_n max_history (history_of sid w @
       [\<lparr>role = r, content = c, timestamp = clk (clock_reads (ensure_session clk sid w))\<rparr>])"
proof (cases "session_contexts w sid")
  case None
  then show ?thesis
    by (simp add: history_of_def add_conversation_turn_def ensure_session_def
        create_session_def now_def assign_def Let_def last_n_def max_history_def)
next
  case (Some s)
  then show ?thesis
    by (simp add: add_conversation_turn_existing history_of_def Let_def last_n_id
        ensure_session_existing)
qed

lemma turn_key_mk: "turn_key \<lparr>role = r, content = c, timestamp = t\<rparr> = (r, c)"
  by (simp add: turn_key_def)

lemma add_turns_history:
  "map turn_key (history_of sid (add_turns clk sid rcs w)) =
     (if rcs = [] then map turn_key (history_of sid w)
      else last_n max_history (map turn_key (history_of sid w) @ rcs))"
proof (induction rcs arbitrary: w)
  case Nil
  then show ?case by simp
next
  case (Cons rc rcs)
  obtain r c where rc: "rc = (r, c)" by (cases rc)
  show ?case
  proof (cases "rcs = []")
    case True
    then show ?thesis by (simp add: rc history_of_add map_last_n turn_key_mk)
  next
    case False
    then show ?thesis
      using Cons.IH [of "add_conversation_turn clk sid r c w"]
      by (simp add: rc history_of_add map_last_n turn_key_mk last_n_append_last_n)
  qed
qed

text \<open>
  C3. Call \<^verbatim>\<open>add_conversation_turn\<close> on a session \<open>N\<close> times. Whatever the session held
  before, its history is then the last ten of the old turns followed by the \<open>N\<close> new
  ones, in the order given (the old history itself when \<open>N = 0\<close>): the oldest turns are
  the ones dropped. For a session that had received no turn before (it did not exist,
  or its history was empty), the history has \<open>min N 10\<close> turns, the last \<open>min N 10\<close> of the
  turns given. Turns are compared by role and content.
\<close>

theorem history_after_appends:
  "map turn_key (history_of sid (add_turns clk sid rcs w)) =
     (if rcs = [] then map turn_key (history_of sid w)
      else last_n 10 (map turn_key (history_of sid w) @ rcs))
   \<and> (history_of sid w = [] \<longrightarrow>
        length (history_of sid (add_turns clk sid rcs w)) = min (length rcs) 10
        \<and> map turn_key (history_of sid (add_turns clk sid rcs w)) = last_n 10 rcs)"
proof -
  let ?h = "history_of sid (add_turns clk sid rcs w)"
  have g: "map turn_key ?h =
     (if rcs = [] then map turn_key (history_of sid w)
      else last_n 10 (map turn_key (history_of sid w) @ rcs))"
    by (simp add: add_turns_history max_history_def)
  have "length ?h = min (length rcs) 10 \<and> map turn_key ?h = last_n 10 rcs"
    if e: "history_of sid w = []"
  proof -
    have k: "map turn_key ?h = last_n 10 rcs"
      using e by (simp add: g last_n_def)
    have "length (map turn_key ?h) = min (length rcs) 10"
      unfolding k by (simp add: length_last_n)
    then have "length ?h = min (length rcs) 10"
      by (simp only: length_map)
    with k show ?thesis by simp
  qed
  with g show ?thesis by blast
qed

theorem history_after_appends_witness:
  "history_of s1 w_empty = []
   \<and> length (history_of s1 (add_turns clk0 s1 twelve_turns w_empty)) = 10
   \<and> map turn_key (history_of s1 (add_turns clk0 s1 twelve_turns w_empty)) = drop 2 twelve_turns
   \<and> map turn_key (history_of s1 (add_turns clk0 s1 twelve_turns w_sample)) = drop 3
         ((ascii ''user'', JString (ascii ''hello'')) # twelve_turns)"
proof -
  have e: "history_of s1 w_empty = []"
    by (simp add: history_of_def w_empty_def)
  have "length (history_of s1 (add_turns clk0 s1 twelve_turns w_empty)) = min (length twelve_turns) 10
      \<and> map turn_key (history_of s1 (add_turns clk0 s1 twelve_turns w_empty)) = last_n 10 twelve_turns"
    using history_after_appends [of s1 clk0 twelve_turns w_empty] e by blast
  moreover have "map turn_key (history_of s1 (add_turns clk0 s1 twelve_turns w_sample)) =
      drop 3 ((ascii ''user'', JString (ascii ''hello'')) # twelve_turns)"
    using history_after_appends [of s1 clk0 twelve_turns w_sample]
    by (simp add: history_of_def w_sample_def sample_session_def twelve_turns_def last_n_def
        turn_key_def)
  ultimately show ?thesis
    using e by (simp add: twelve_turns_def last_n_def)
qed

text \<open>
  C10. On a session that exists, each mutator changes the fields it is for and
  \<open>last_updated\<close>, and leaves every other field as it was: the session afterwards is
  written as the session before with these fields set. \<^verbatim>\<open>update_environment\<close> keeps
  the value of every key that the new map does not hold.
\<close>

theorem mutators_frame:
  assumes "session_contexts w sid = Some s"
  shows "session_contexts (update_student_identity clk sid stid name w) sid =
           Some (s\<lparr>student_id := Some stid, student_name := Some name,
                   last_updated := clk (clock_reads w)\<rparr>)
       \<and> session_contexts (update_location clk sid loc w) sid =
           Some (s\<lparr>current_location := Some loc, last_updated := clk (clock_reads w)\<rparr>)
       \<and> session_contexts (update_environment clk sid env_data w) sid =
           Some (s\<lparr>environment_info := environment_info s ++ env_data,
                   last_updated := clk (clock_reads w)\<rparr>)
       \<and> (env_data k = None \<longrightarrow>
            map_option (\<lambda>s'. environment_info s' k)
              (session_contexts (update_environment clk sid env_data w) sid) =
            Some (environment_info s k))
       \<and> session_contexts (add_conversation_turn clk sid r c w) sid =
           Some (s\<lparr>conversation_history :=
                     last_n 10 (conversation_history s @
                       [\<lparr>role = r, content = c, timestamp = clk (clock_reads w)\<rparr>]),
                   last_updated := clk (Suc (clock_reads w))\<rparr>)"
proof -
  have a: "session_contexts (update_student_identity clk sid stid name w) sid =
           Some (s\<lparr>student_id := Some stid, student_name := Some name,
                   last_updated := clk (clock_reads w)\<rparr>)"
    using assms
    by (simp add: update_student_identity_def ensure_session_existing assign_def now_def)
  have b: "session_contexts (update_location clk sid loc w) sid =
           Some (s\<lparr>current_location := Some loc, last_updated := clk (clock_reads w)\<rparr>)"
    using assms
    by (simp add: update_location_def ensure_session_existing assign_def now_def)
  have c: "session_contexts (update_environment clk sid env_data w) sid =
           Some (s\<lparr>environment_info := environment_info s ++ env_data,
                   last_updated := clk (clock_reads w)\<rparr>)"
    using assms
    by (simp add: update_environment_def ensure_session_existing assign_def now_def)
  have d: "env_data k = None \<longrightarrow>
            map_option (\<lambda>s'. environment_info s' k)
              (session_contexts (update_environment clk sid env_data w) sid) =
            Some (environment_info s k)"
    unfolding c by (simp add: map_add_def)
  have e: "session_contexts (add_conversation_turn clk sid r c w) sid =
           Some (s\<lparr>conversation_history :=
                     last_n 10 (conversation_history s @
                       [\<lparr>role = r, content = c, timestamp = clk (clock_reads w)\<rparr>]),
                   last_updated := clk (Suc (clock_reads w))\<rparr>)"
    using assms
    by (simp add: add_conversation_turn_existing Let_def max_history_def last_n_id)
  from a b c d e show ?thesis by blast
qed

theorem mutators_frame_witness:
  "session_contexts w_sample s1 = Some sample_session
   \<and> session_contexts
        (update_student_identity clk0 s1 (ascii ''6402'') (ascii ''Malee'') w_sample) s1 =
       Some (sample_session\<lparr>student_id := Some (ascii ''6402''),
                            student_name := Some (ascii ''Malee''),
                            last_updated := clk0 7\<rparr>)
   \<and> session_contexts (update_location clk0 s1 (ascii ''library'') w_sample) s1 =
       Some (sample_session\<lparr>current_location := Some (ascii ''library''),
                            last_updated := clk0 7\<rparr>)
   \<and> map_option (\<lambda>s'. environment_info s' (ascii ''noise''))
        (session_contexts
          (update_environment clk0 s1 [ascii ''light'' \<mapsto> JString (ascii ''bright'')] w_sample) s1) =
       Some (Some (JInt 3))
   \<and> map_option conversation_history
        (session_contexts
          (add_conversation_turn clk0 s1 (ascii ''assistant'') (JString (ascii ''hi'')) w_sample) s1) =
       Some [\<lparr>role = ascii ''user'', content = JString (ascii ''hello''), timestamp = ascii ''t5''\<rparr>,
             \<lparr>role = ascii ''assistant'', content = JString (ascii ''hi''), timestamp = clk0 7\<rparr>]"
  using mutators_frame [where w = w_sample and sid = s1 and s = sample_session
      and env_data = "[ascii ''light'' \<mapsto> JString (ascii ''bright'')]" and k = "ascii ''noise''"
      and clk = clk0 and stid = "ascii ''6402''" and name = "ascii ''Malee''"
      and loc = "ascii ''library''" and r = "ascii ''assistant''" and c = "JString (ascii ''hi'')"]
  by (simp add: w_sample_def sample_session_def last_n_def ascii_def)

section \<open>Properties of the context and the prompt\<close>

lemma prefix_join: "prefix x (join sep (x # xs))"
  by (cases xs) simp_all

lemma create_session_lookup:
  "session_contexts (create_session clk sid w) sid =
     Some \<lparr>session_id = sid, student_id = None, student_name = None,
           conversation_history = [], current_location = None, detected_faces = [],
           environment_info = Map.empty, created_at = clk (clock_reads w),
           last_updated = clk (Suc (clock_reads w))\<rparr>"
  by (simp add: create_session_def now_def)

text \<open>The lookups that follow the guard find the session: no KeyError is raised.\<close>

lemma assign_after_guard:
  "session_contexts (assign sid f (ensure_session clk sid w)) sid =
     map_option f (session_contexts (ensure_session clk sid w) sid)"
  by (simp add: assign_def split: option.split)

lemma build_llm_context_defined:
  "fst (build_llm_context clk sid mems w) \<noteq> None"
proof -
  obtain s where "session_contexts (ensure_session clk sid w) sid = Some s"
    using ensure_session_present [of clk sid w] by blast
  then show ?thesis by (simp add: build_llm_context_def Let_def)
qed

text \<open>
  C5, on a session just created, whose identity and location were never set. The
  context holds \<^verbatim>\<open>None\<close> for them, not the text \<^verbatim>\<open>unknown\<close>; the prompt has no
  location line, but it opens with a greeting line addressed to \<^verbatim>\<open>None\<close>.
\<close>

theorem unset_identity_is_greeted:
  "\<exists>lc. build_llm_context clk sid mems (create_session clk sid w) =
           (Some lc, create_session clk sid w)
       \<and> lc_student_info lc = \<lparr>info_id = None, info_name = None\<rparr>
       \<and> lc_current_location lc = None
       \<and> identity_section lc = [greeting_prefix @ ascii ''None'']
       \<and> location_section lc = []
       \<and> prefix (greeting_prefix @ ascii ''None'') (format_context_as_prompt py lc)"
proof -
  let ?w = "create_session clk sid w"
  obtain s where s: "session_contexts ?w sid = Some s" "student_id s = None"
    "student_name s = None" "current_location s = None"
    by (simp add: create_session_lookup)
  then have e: "ensure_session clk sid ?w = ?w"
    by (simp add: ensure_session_existing)
  obtain lc where lc: "build_llm_context clk sid mems ?w = (Some lc, ?w)"
    and f: "lc_student_info lc = \<lparr>info_id = None, info_name = None\<rparr>"
       "lc_current_location lc = None"
    using s by (cases mems) (simp_all add: build_llm_context_def e Let_def)
  have i: "identity_section lc = [greeting_prefix @ ascii ''None'']"
    by (simp add: identity_section_def f fstr_opt_def)
  have l: "location_section lc = []"
    by (simp add: location_section_def f)
  have "prefix (greeting_prefix @ ascii ''None'') (format_context_as_prompt py lc)"
    by (simp add: format_context_as_prompt_def prompt_parts_def i prefix_join)
  with lc f i l show ?thesis by blast
qed

lemma last_n_last_n: "k \<le> n \<Longrightarrow> last_n k (last_n n xs) = last_n k xs"
proof -
  assume "k \<le> n"
  then have "length xs - (length xs - n) - k + (length xs - n) = length xs - k" by arith
  then show ?thesis by (simp add: last_n_def)
qed

lemma history_of_ensure: "history_of sid (ensure_session clk sid w) = history_of sid w"
  by (simp add: history_of_def ensure_session_def create_session_lookup)

lemma join_foldr:
  "join sep xs = (if xs = [] then [] else foldr (\<lambda>l text. l @ sep @ text) (butlast xs) (last xs))"
  by (induction sep xs rule: join.induct) simp_all

lemma dec_digits:
  "dec (Suc 0) = [49]" "dec (Suc (Suc 0)) = [50]" "dec (Suc (Suc (Suc 0))) = [51]"
  by (simp_all add: dec.simps)

lemma memory_lines_take_3:
  "map memory_line (List.enumerate (Suc 0) (map as_context_memory (take 3 mems))) =
   map (\<lambda>(d, m). d # ascii ''. '' @ mem_text m) (zip [49, 50, 51] (take 3 mems))"
proof -
  consider "mems = []" | a where "mems = [a]" | a b where "mems = [a, b]"
    | a b c rest where "mems = a # b # c # rest"
    by (cases mems; cases "tl mems"; cases "tl (tl mems)") auto
  then show ?thesis
    by cases
      (simp_all add: memory_line_def as_context_memory_def dec_digits)
qed

lemma as_context_memory_fields:
  "map as_context_memory ms =
   map (\<lambda>m. \<lparr>cm_content = mem_text m, relevance_score = mem_score m, cm_type = mem_type m\<rparr>) ms"
  by (simp add: as_context_memory_def)

lemma turn_line_text:
  "map (turn_line py) ts =
   map (\<lambda>t. (if role t = ascii ''user'' then role_student else role_robot) @ ascii '': '' @
             (case content t of JString c \<Rightarrow> c | _ \<Rightarrow> py (content t))) ts"
  by (simp add: turn_line_def fstr_def Let_def)

lemma drop_last_3_of_5:
  "drop (length (drop (length h - 5) h) - 3) (drop (length h - 5) h) = last_n 3 (last_n 5 h)"
  by (simp add: last_n_def)

text \<open>
  C8. The context keeps the last 5 turns of the history and the first 3 records of the
  memory search, in their order and with their text, score and type. The lines of the
  prompt are the identity and location lines, then the header of the memories and one
  line for each of the records kept, numbered 1, 2, 3 and with the record's text, then
  the header of the conversation and one line for each of the last 3 of the 5 turns
  kept, with the label of its role and its content. The prompt text is these lines with
  a newline between them.
\<close>

theorem truncation_points:
  "\<exists>lc. build_llm_context clk sid (Some mems) w = (Some lc, ensure_session clk sid w)
     \<and> (let h = history_of sid w;
            h5 = drop (length h - 5) h;
            h3 = drop (length h5 - 3) h5;
            m3 = take 3 mems;
            memory_lines =
              (if m3 = [] then []
               else memories_header #
                    map (\<lambda>(d, m). d # ascii ''. '' @ mem_text m) (zip [49, 50, 51] m3));
            turn_lines =
              (if h3 = [] then []
               else history_header #
                    map (\<lambda>t. (if role t = ascii ''user'' then role_student else role_robot) @
                              ascii '': '' @
                              (case content t of JString c \<Rightarrow> c | _ \<Rightarrow> py (content t))) h3);
            lines = identity_section lc @ location_section lc @ memory_lines @ turn_lines
        in lc_conversation_history lc = h5
         \<and> lc_relevant_memories lc =
             map (\<lambda>m. \<lparr>cm_content = mem_text m, relevance_score = mem_score m,
                        cm_type = mem_type m\<rparr>) m3
         \<and> prompt_parts py lc = lines
         \<and> format_context_as_prompt py lc =
             (if lines = [] then []
              else foldr (\<lambda>l text. l @ 10 # text) (butlast lines) (last lines)))"
proof -
  let ?w = "ensure_session clk sid w"
  let ?h = "history_of sid w"
  obtain s where s: "session_contexts ?w sid = Some s"
    using ensure_session_present [of clk sid w] by blast
  then have h: "conversation_history s = ?h"
    using history_of_ensure [of sid clk w] by (simp add: history_of_def)
  obtain lc where lc: "build_llm_context clk sid (Some mems) w = (Some lc, ?w)"
    and c: "lc_conversation_history lc = last_n 5 ?h"
    and m: "lc_relevant_memories lc = map as_context_memory (take 3 mems)"
    using s h by (simp add: build_llm_context_def Let_def)
  have e5: "(last_n 5 ?h = []) = (?h = [])"
    by (cases ?h) (simp_all add: last_n_def)
  have e3: "(last_n 3 (last_n 5 ?h) = []) = (?h = [])"
    by (cases ?h) (simp_all add: last_n_def)
  let ?h5 = "drop (length ?h - 5) ?h"
  let ?h3 = "drop (length ?h5 - 3) ?h5"
  let ?m3 = "take 3 mems"
  let ?ml = "if ?m3 = [] then []
             else memories_header #
                  map (\<lambda>(d, m). d # ascii ''. '' @ mem_text m) (zip [49, 50, 51] ?m3)"
  let ?tl = "if ?h3 = [] then []
             else history_header #
                  map (\<lambda>t. (if role t = ascii ''user'' then role_student else role_robot) @
                            ascii '': '' @
                            (case content t of JString c \<Rightarrow> c | _ \<Rightarrow> py (content t))) ?h3"
  let ?lines = "identity_section lc @ location_section lc @ ?ml @ ?tl"
  have h3: "last_n 3 (last_n 5 ?h) = ?h3"
    by (simp add: last_n_def)
  have hs: "history_section py lc = ?tl"
    unfolding h3 [symmetric] by (simp add: history_section_def c e5 e3 turn_line_text)
  have ms: "memories_section lc = ?ml"
    by (simp add: memories_section_def m memory_lines_take_3)
  have g1: "lc_conversation_history lc = ?h5"
    using c by (simp add: last_n_def)
  have g2: "lc_relevant_memories lc =
      map (\<lambda>m. \<lparr>cm_content = mem_text m, relevance_score = mem_score m,
                 cm_type = mem_type m\<rparr>) ?m3"
    using m by (simp only: as_context_memory_fields)
  have g3: "prompt_parts py lc = ?lines"
    by (simp only: prompt_parts_def hs ms)
  have g4: "format_context_as_prompt py lc =
      (if ?lines = [] then []
       else foldr (\<lambda>l text. l @ 10 # text) (butlast ?lines) (last ?lines))"
    unfolding g3 [symmetric] by (simp add: format_context_as_prompt_def join_foldr)
  show ?thesis
    unfolding Let_def
  proof (intro exI conjI)
    show "build_llm_context clk sid (Some mems) w = (Some lc, ?w)" by (rule lc)
    show "lc_conversation_history lc = ?h5" by (rule g1)
    show "lc_relevant_memories lc =
      map (\<lambda>m. \<lparr>cm_content = mem_text m, relevance_score = mem_score m,
                 cm_type = mem_type m\<rparr>) ?m3" by (rule g2)
    show "prompt_parts py lc = ?lines" by (rule g3)
    show "format_context_as_prompt py lc =
      (if ?lines = [] then []
       else foldr (\<lambda>l text. l @ 10 # text) (butlast ?lines) (last ?lines))" by (rule g4)
  qed
qed

theorem truncation_points_witness:
  "\<exists>lc. build_llm_context clk0 s1 (Some five_memories) w_busy = (Some lc, w_busy)
     \<and> map content (lc_conversation_history lc) =
         [JString (ascii ''a1''), JString (ascii ''q2''), JString (ascii ''a2''),
          JString (ascii ''q3''), JString (ascii ''a3'')]
     \<and> map cm_content (lc_relevant_memories lc) = [ascii ''fact1'', ascii ''fact2'', ascii ''fact3'']
     \<and> format_context_as_prompt str_unused lc =
         greeting_prefix @ ascii ''Somchai'' @ 10 #
         location_prefix @ ascii ''lobby'' @ 10 #
         memories_header @ 10 #
         ascii ''1. fact1'' @ 10 # ascii ''2. fact2'' @ 10 # ascii ''3. fact3'' @ 10 #
         history_header @ 10 #
         role_robot @ ascii '': a2'' @ 10 #
         role_student @ ascii '': q3'' @ 10 #
         role_robot @ ascii '': a3''"
proof -
  have e: "ensure_session clk0 s1 w_busy = w_busy"
    by (simp add: ensure_session_def w_busy_def)
  have h: "history_of s1 w_busy = conversation_history busy_session"
    by (simp add: history_of_def w_busy_def)
  from truncation_points [of clk0 s1 five_memories w_busy str_unused]
  obtain lc where l: "build_llm_context clk0 s1 (Some five_memories) w_busy = (Some lc, w_busy)"
    and c: "lc_conversation_history lc =
        drop (length (conversation_history busy_session) - 5) (conversation_history busy_session)"
    and m: "lc_relevant_memories lc =
        map (\<lambda>m. \<lparr>cm_content = mem_text m, relevance_score = mem_score m,
                   cm_type = mem_type m\<rparr>) (take 3 five_memories)"
    and f: "format_context_as_prompt str_unused lc =
        (let h = conversation_history busy_session;
             h5 = drop (length h - 5) h;
             h3 = drop (length h5 - 3) h5;
             m3 = take 3 five_memories;
             memory_lines =
               (if m3 = [] then []
                else memories_header #
                     map (\<lambda>(d, m). d # ascii ''. '' @ mem_text m) (zip [49, 50, 51] m3));
             turn_lines =
               (if h3 = [] then []
                else history_header #
                     map (\<lambda>t. (if role t = ascii ''user'' then role_student else role_robot) @
                               ascii '': '' @
                               (case content t of JString c \<Rightarrow> c
                                | _ \<Rightarrow> str_unused (content t))) h3);
             lines = identity_section lc @ location_section lc @ memory_lines @ turn_lines
         in if lines = [] then []
            else foldr (\<lambda>l text. l @ 10 # text) (butlast lines) (last lines))"
    unfolding e h Let_def by blast
  have "student_name busy_session = Some (ascii ''Somchai'')"
    "current_location busy_session = Some (ascii ''lobby'')"
    by (simp_all add: busy_session_def)
  then have i: "lc_student_info lc = \<lparr>info_id = student_id busy_session,
                                     info_name = Some (ascii ''Somchai'')\<rparr>"
    "lc_current_location lc = Some (ascii ''lobby'')"
    using l unfolding build_llm_context_def e Let_def
    by (auto simp: w_busy_def five_memories_def)
  have s: "identity_section lc = [greeting_prefix @ ascii ''Somchai'']"
    "location_section lc = [location_prefix @ ascii ''lobby'']"
    by (simp_all add: identity_section_def location_section_def i fstr_opt_def ascii_def)
  have c': "map content (lc_conversation_history lc) =
         [JString (ascii ''a1''), JString (ascii ''q2''), JString (ascii ''a2''),
          JString (ascii ''q3''), JString (ascii ''a3'')]"
    unfolding c by (simp add: busy_session_def)
  have m': "map cm_content (lc_relevant_memories lc) =
      [ascii ''fact1'', ascii ''fact2'', ascii ''fact3'']"
    unfolding m by (simp add: five_memories_def fact_def)
  have f': "format_context_as_prompt str_unused lc =
         greeting_prefix @ ascii ''Somchai'' @ 10 #
         location_prefix @ ascii ''lobby'' @ 10 #
         memories_header @ 10 #
         ascii ''1. fact1'' @ 10 # ascii ''2. fact2'' @ 10 # ascii ''3. fact3'' @ 10 #
         history_header @ 10 #
         role_robot @ ascii '': a2'' @ 10 #
         role_student @ ascii '': q3'' @ 10 #
         role_robot @ ascii '': a3''"
    unfolding f s by (simp add: Let_def busy_session_def five_memories_def fact_def ascii_def)
  show ?thesis
    by (rule exI [of _ lc]) (intro conjI l c' m' f')
qed

section \<open>Properties of the removal of the code block\<close>

text \<open>The indices that \<open>extract_json_text\<close> reads are in range: no IndexError is
  raised.\<close>

lemma py_split_nonempty: "py_split sep s \<noteq> []"
  by (induction s) (auto split: list.splits)

lemma length_py_split_step:
  "\<not> (sep \<noteq> [] \<and> prefix sep (c # cs)) \<Longrightarrow>
   length (py_split sep (c # cs)) = length (py_split sep cs)"
  using py_split_nonempty [of sep cs] by (auto split: list.splits)

lemma py_split_index_1:
  assumes "sep \<noteq> []" and "sublist sep s"
  shows "1 < length (py_split sep s)"
  using assms(2)
proof (induction s)
  case Nil
  then show ?case using assms(1) by simp
next
  case (Cons c cs)
  show ?case
  proof (cases "prefix sep (c # cs)")
    case True
    then show ?thesis
      using assms(1) py_split_nonempty [of sep "drop (length sep) (c # cs)"] by simp
  next
    case False
    then have "sublist sep cs" using Cons.prems by (simp add: sublist_Cons_right)
    then have "1 < length (py_split sep cs)" by (rule Cons.IH)
    then show ?thesis using length_py_split_step [of sep c cs] False by simp
  qed
qed

lemma extract_json_text_in_range:
  "(sublist fence_json r \<longrightarrow> 1 < length (py_split fence_json r)) \<and>
   (sublist fence r \<longrightarrow> 1 < length (py_split fence r)) \<and>
   0 < length (py_split fence t)"
  using py_split_index_1 [of fence_json r] py_split_index_1 [of fence r]
    py_split_nonempty [of fence t]
  by (auto simp: fence_def fence_json_def ascii_def)

lemma fence_eq: "fence = [96, 96, 96]"
  by (simp add: fence_def ascii_def)

lemma fence_json_eq: "fence_json = [96, 96, 96, 106, 115, 111, 110]"
  by (simp add: fence_json_def ascii_def)

lemma sublist_iff_prefix_drop: "sublist xs ys \<longleftrightarrow> (\<exists>i. prefix xs (drop i ys))"
proof
  assume "sublist xs ys"
  then obtain ps ss where "ys = ps @ xs @ ss" by (auto simp: sublist_def)
  then have "prefix xs (drop (length ps) ys)" by simp
  then show "\<exists>i. prefix xs (drop i ys)" ..
next
  assume "\<exists>i. prefix xs (drop i ys)"
  then obtain i ss where "drop i ys = xs @ ss" by (auto simp: prefix_def)
  then have "ys = take i ys @ xs @ ss" by (metis append_take_drop_id)
  then show "sublist xs ys" unfolding sublist_def by blast
qed

lemma py_split_none:
  "(\<And>i. \<not> prefix sep (drop i s)) \<Longrightarrow> py_split sep s = [s]"
proof (induction s)
  case Nil
  then show ?case by simp
next
  case (Cons c cs)
  have "\<not> prefix sep (c # cs)" using Cons.prems [of 0] by simp
  moreover have "py_split sep cs = [cs]"
  proof (rule Cons.IH)
    fix i show "\<not> prefix sep (drop i cs)" using Cons.prems [of "Suc i"] by simp
  qed
  ultimately show ?case by simp
qed

lemma py_split_first:
  assumes "sep \<noteq> []" and "\<And>i. i < length a \<Longrightarrow> \<not> prefix sep (drop i (a @ sep @ b))"
  shows "py_split sep (a @ sep @ b) = a # py_split sep b"
  using assms(2)
proof (induction a)
  case Nil
  obtain c cs where e: "sep @ b = c # cs" using assms(1) by (cases sep) auto
  have "prefix sep (c # cs)" unfolding e [symmetric] by simp
  moreover have "drop (length sep) (c # cs) = b" unfolding e [symmetric] by simp
  ultimately show ?case using assms(1) e by simp
next
  case (Cons x a)
  have "\<not> prefix sep (x # a @ sep @ b)" using Cons.prems [of 0] by simp
  moreover have "py_split sep (a @ sep @ b) = a # py_split sep b"
  proof (rule Cons.IH)
    fix i assume "i < length a"
    then show "\<not> prefix sep (drop i (a @ sep @ b))" using Cons.prems [of "Suc i"] by simp
  qed
  ultimately show ?case by simp
qed

lemma no_fence_before_newline:
  assumes "\<not> sublist fence p" and "i \<le> length p"
  shows "\<not> prefix fence (drop i (p @ 10 # rest))"
proof
  assume a: "prefix fence (drop i (p @ 10 # rest))"
  let ?q = "drop i p"
  have d: "drop i (p @ 10 # rest) = ?q @ 10 # rest" using assms(2) by simp
  have "prefix fence ?q"
    using a unfolding d fence_eq
    by (cases ?q; cases "tl ?q"; cases "tl (tl ?q)") auto
  then have "sublist fence p" using sublist_iff_prefix_drop by blast
  with assms(1) show False by simp
qed

lemma no_fence_in_lines:
  assumes "\<not> sublist fence p" and "i < length (10 # p @ [10])"
  shows "\<not> prefix fence (drop i ((10 # p @ [10]) @ rest))"
proof (cases i)
  case 0
  then show ?thesis by (simp add: fence_eq)
next
  case (Suc j)
  then have "j \<le> length p" using assms(2) by simp
  then show ?thesis
    using no_fence_before_newline [OF assms(1), of j "rest"] Suc by simp
qed


lemma is_space_newline: "is_space 10"
  by (simp add: is_space_def)

lemma py_strip_lines: "py_strip (10 # p @ [10]) = py_strip p"
proof (cases "\<forall>c\<in>set p. is_space c")
  case True
  then have a: "dropWhile is_space p = []" by simp
  have b: "dropWhile is_space (10 # p @ [10]) = []"
    using True by (simp add: is_space_newline)
  show ?thesis unfolding py_strip_def a b by (rule refl)
next
  case False
  then have b: "dropWhile is_space (10 # p @ [10]) = dropWhile is_space p @ [10]"
    by (auto simp add: is_space_newline dropWhile_append)
  show ?thesis unfolding py_strip_def b by (simp add: is_space_newline)
qed

lemma py_strip_unspaced:
  assumes "s \<noteq> []" and "\<not> is_space (hd s)" and "\<not> is_space (last s)"
  shows "py_strip s = s"
proof -
  have a: "dropWhile is_space s = s" using assms(1,2) by (cases s) simp_all
  have "dropWhile is_space (rev s) = rev s"
    using assms(1,3) by (cases "rev s") (simp_all add: last_rev [symmetric] hd_rev)
  then show ?thesis by (simp add: py_strip_def a)
qed

lemma sublist_py_strip: "sublist (py_strip p) p"
proof -
  let ?q = "dropWhile is_space p"
  have "suffix (dropWhile is_space (rev ?q)) (rev ?q)" by (rule suffix_dropWhile)
  then have "prefix (py_strip p) ?q" by (simp add: suffix_to_prefix py_strip_def)
  moreover have "suffix ?q p" by (rule suffix_dropWhile)
  ultimately show ?thesis
    by (meson prefix_imp_sublist suffix_imp_sublist sublist_order.order_trans)
qed

lemma fence_in_fence_json: "prefix fence_json s \<Longrightarrow> prefix fence s"
  by (auto simp: fence_eq fence_json_eq prefix_def)

lemma extract_fenced_json:
  assumes "\<not> sublist fence p"
  shows "extract_json_text (fenced_json p) = py_strip p"
proof -
  let ?x = "10 # p @ [10]"
  have f: "fenced_json p = [] @ fence_json @ (?x @ fence)"
    by (simp add: fenced_json_def)
  have "sublist fence_json (fenced_json p)"
    unfolding f sublist_def by blast
  moreover have "py_split fence_json (fenced_json p) = [] # py_split fence_json (?x @ fence)"
    unfolding f by (rule py_split_first) (simp_all add: fence_json_eq)
  moreover have "py_split fence_json (?x @ fence) = [?x @ fence]"
  proof (rule py_split_none)
    fix i
    show "\<not> prefix fence_json (drop i (?x @ fence))"
    proof (cases "i < length ?x")
      case True
      then show ?thesis
        using no_fence_in_lines [OF assms, of i fence] fence_in_fence_json by blast
    next
      case False
      then have "length (drop i (?x @ fence)) \<le> 3" by (simp add: fence_eq)
      then show ?thesis
        by (auto simp: prefix_def fence_json_eq dest!: arg_cong [where f = length])
    qed
  qed
  moreover have "py_split fence (?x @ fence) = ?x # py_split fence []"
    using py_split_first [of fence ?x "[]"] no_fence_in_lines [OF assms, of _ "fence @ []"]
    by (simp add: fence_eq)
  ultimately show ?thesis
    by (simp add: extract_json_text_def py_strip_lines)
qed

lemma extract_fenced:
  assumes "\<not> sublist fence p"
  shows "extract_json_text (fenced p) = py_strip p"
proof -
  let ?x = "10 # p @ [10]"
  have f: "fenced p = [] @ fence @ (?x @ fence)"
    by (simp add: fenced_def)
  have n: "\<not> prefix fence (drop i ?x)" for i
  proof (cases "i < length ?x")
    case True
    then show ?thesis using no_fence_in_lines [OF assms, of i "[]"] by simp
  next
    case False
    then show ?thesis by (simp add: fence_eq)
  qed
  have "\<not> prefix fence_json (drop i (fenced p))" for i
  proof (cases "i < 3")
    case True
    then have "i = 0 \<or> i = 1 \<or> i = 2" by arith
    then show ?thesis by (auto simp: fenced_def fence_eq fence_json_eq)
  next
    case False
    then have "i = Suc (Suc (Suc (i - 3)))" by arith
    then obtain j where j: "i = Suc (Suc (Suc j))" ..
    have d: "drop i (fenced p) = drop j (?x @ fence)"
      by (simp add: fenced_def fence_eq j)
    show ?thesis
    proof (cases "j < length ?x")
      case True
      then show ?thesis
        unfolding d using no_fence_in_lines [OF assms, of j fence] fence_in_fence_json by blast
    next
      case False
      then have "length (drop j (?x @ fence)) \<le> 3" by (simp add: fence_eq)
      then show ?thesis
        unfolding d by (auto simp: prefix_def fence_json_eq dest!: arg_cong [where f = length])
    qed
  qed
  then have "\<not> sublist fence_json (fenced p)"
    by (simp add: sublist_iff_prefix_drop)
  moreover have "sublist fence (fenced p)"
    unfolding f sublist_def by blast
  moreover have "py_split fence (fenced p) = [] # py_split fence (?x @ fence)"
    unfolding f by (rule py_split_first) (simp_all add: fence_eq)
  moreover have "py_split fence (?x @ fence) = ?x # py_split fence []"
    using py_split_first [of fence ?x "[]"] no_fence_in_lines [OF assms, of _ "fence @ []"]
    by (simp add: fence_eq)
  moreover have "py_split fence ?x = [?x]"
    using n by (rule py_split_none)
  ultimately show ?thesis
    by (simp add: extract_json_text_def py_strip_lines)
qed

lemma extract_bare:
  assumes "\<not> sublist fence p"
  shows "extract_json_text (py_strip p) = py_strip p"
proof -
  have a: "\<not> sublist fence (py_strip p)"
    using assms sublist_py_strip sublist_order.order_trans by blast
  have "prefix fence fence_json" by (simp add: fence_eq fence_json_eq)
  then have "\<not> sublist fence_json (py_strip p)"
    using a by (meson prefix_imp_sublist sublist_order.order_trans)
  with a show ?thesis by (simp add: extract_json_text_def)
qed

lemma chat_text_reply: "chat_text (ollama_reply raw) = Some (py_strip raw)"
  by (simp add: chat_text_def ollama_reply_def dict_get_def ascii_def)

lemma py_strip_fenced_json: "py_strip (fenced_json p) = fenced_json p"
  by (rule py_strip_unspaced) (simp_all add: fenced_json_def fence_eq fence_json_eq is_space_def)

lemma py_strip_fenced: "py_strip (fenced p) = fenced p"
  by (rule py_strip_unspaced) (simp_all add: fenced_def fence_eq is_space_def)

lemma generate_structured_reply:
  "generate_structured tc (always_reply raw) jl sp um t w =
     ((if py_strip raw = [] then Inr JNull
       else case jl (extract_json_text (py_strip raw)) of
              Loaded v \<Rightarrow> Inr v
            | JSONDecodeError \<Rightarrow> Inr JNull
            | Raises e \<Rightarrow> Inl e),
      w\<lparr>calls := calls w @ [ChatRequest [(ascii ''system'', sp), (ascii ''user'', um)] t 512]\<rparr>)"
  by (simp add: generate_structured_def chat_def always_reply_def chat_text_reply Let_def
      split: option.split loads_result.split)

lemma payload_hi_no_fence: "\<not> sublist fence payload_hi"
  by (simp add: fence_def payload_hi_def ascii_def sublist_code(3))



lemma py_strip_payload_hi: "py_strip payload_hi = payload_hi"
  by (simp add: py_strip_def payload_hi_def ascii_def is_space_def)

lemma extract_payload_ticks: "extract_json_text payload_ticks = ascii ''1''"
  by (simp add: extract_json_text_def payload_ticks_def ascii_def fence_def fence_json_def py_strip_def is_space_def sublist_code(3))



lemma extract_fenced_payload_ticks:
  "extract_json_text (fenced_json payload_ticks) = ascii ''{\"response\":\"''"
  by (simp add: extract_json_text_def fenced_json_def payload_ticks_def ascii_def fence_def fence_json_def py_strip_def is_space_def sublist_code(3))

lemma py_strip_payload_ticks: "py_strip payload_ticks = payload_ticks"
  by (simp add: py_strip_def payload_ticks_def ascii_def is_space_def)

lemma py_strip_fenced_payload_ticks: "py_strip (fenced_json payload_ticks) = fenced_json payload_ticks"
  by (rule py_strip_fenced_json)

text \<open>
  C6 fails for a payload that has three backquotes inside a string. Without a code
  block the text between the first two runs of backquotes is decoded, here the number
  1; inside a block labelled json the text before the first run is, and it is not
  JSON.
\<close>

theorem fence_changes_result:
  "fst (generate_structured tc0 (always_reply (fenced_json payload_ticks)) sample_loads
          system_prompt [] (Fin (1/2)) w_empty) = Inr JNull
   \<and> fst (generate_structured tc0 (always_reply payload_ticks) sample_loads
          system_prompt [] (Fin (1/2)) w_empty) = Inr (JInt 1)"
proof -
  have a: "sample_loads (ascii ''1'') = Loaded (JInt 1)"
    by (simp add: sample_loads_def payload_hi_def payload_ticks_def ascii_def)
  have b: "sample_loads (ascii ''{\"response\":\"'') = JSONDecodeError"
    by (simp add: sample_loads_def payload_hi_def payload_ticks_def ascii_def)
  have c: "payload_ticks \<noteq> []" "fenced_json payload_ticks \<noteq> []"
    by (simp_all add: payload_ticks_def fenced_json_def ascii_def)
  show ?thesis
    using c
    by (simp add: generate_structured_reply extract_payload_ticks extract_fenced_payload_ticks
        py_strip_payload_ticks py_strip_fenced_payload_ticks a b)
qed

text \<open>
  C6, amended. For a payload that is not blank and has no run of three backquotes, the
  result of \<^verbatim>\<open>generate_structured\<close> is the same whether the model gives the payload in
  a code block labelled json, in a code block without label, or bare; it is the
  decoding of the payload without the whitespace around it.
\<close>

theorem fence_tolerance:
  assumes "\<not> sublist fence p" and "py_strip p \<noteq> []"
  shows "generate_structured tc (always_reply (fenced_json p)) jl sp um t w =
           generate_structured tc (always_reply p) jl sp um t w
       \<and> generate_structured tc (always_reply (fenced p)) jl sp um t w =
           generate_structured tc (always_reply p) jl sp um t w
       \<and> fst (generate_structured tc (always_reply p) jl sp um t w) =
           (case jl (py_strip p) of
              Loaded v \<Rightarrow> Inr v
            | JSONDecodeError \<Rightarrow> Inr JNull
            | Raises e \<Rightarrow> Inl e)"
proof -
  have a: "fenced_json p \<noteq> []" "fenced p \<noteq> []"
    by (simp_all add: fenced_json_def fenced_def fence_eq)
  show ?thesis
    using assms a
    by (simp add: generate_structured_reply py_strip_fenced_json py_strip_fenced
        extract_fenced_json extract_fenced extract_bare)
qed

theorem fence_tolerance_witness:
  "\<not> sublist fence payload_hi \<and> py_strip payload_hi \<noteq> []
   \<and> generate_structured tc0 (always_reply (fenced_json payload_hi)) sample_loads
         system_prompt [] (Fin (1/2)) w_empty =
       generate_structured tc0 (always_reply payload_hi) sample_loads
         system_prompt [] (Fin (1/2)) w_empty
   \<and> generate_structured tc0 (always_reply (fenced payload_hi)) sample_loads
         system_prompt [] (Fin (1/2)) w_empty =
       generate_structured tc0 (always_reply payload_hi) sample_loads
         system_prompt [] (Fin (1/2)) w_empty
   \<and> fst (generate_structured tc0 (always_reply payload_hi) sample_loads
         system_prompt [] (Fin (1/2)) w_empty) = Inr decoded_hi"
proof -
  have a: "\<not> sublist fence payload_hi" by (rule payload_hi_no_fence)
  have b: "py_strip payload_hi \<noteq> []"
    unfolding py_strip_payload_hi by (simp add: payload_hi_def ascii_def)
  have c: "sample_loads payload_hi = Loaded decoded_hi" by (simp add: sample_loads_def)
  show ?thesis
    using a b fence_tolerance [OF a b, of tc0 sample_loads system_prompt "[]" "Fin (1/2)" w_empty]
    by (simp add: py_strip_payload_hi c)
qed

section \<open>Properties of the speech endpoint\<close>

lemma add_conversation_turn_present:
  "session_contexts (add_conversation_turn clk sid r c w) sid \<noteq> None"
proof (cases "session_contexts w sid")
  case None
  then show ?thesis
    by (simp add: add_conversation_turn_def ensure_session_def create_session_def now_def
        assign_def Let_def)
next
  case (Some s)
  then show ?thesis by (simp add: add_conversation_turn_existing)
qed

lemma heard_present:
  "session_contexts (heard sv cfg speech w) (speech_session_id speech) \<noteq> None"
  using add_conversation_turn_present by (simp add: heard_def Let_def)

lemma build_llm_context_present:
  assumes "session_contexts w sid \<noteq> None"
  shows "\<exists>lc. build_llm_context clk sid mems w = (Some lc, w)"
proof -
  obtain s where s: "session_contexts w sid = Some s" using assms by blast
  then have "ensure_session clk sid w = w" by (rule ensure_session_existing)
  then show ?thesis using s by (simp add: build_llm_context_def Let_def)
qed

lemma generate_structured_eq:
  "generate_structured tc post jl sp um t w =
     ((case chat_text (post (chat_endpoint tc)
               \<lparr>p_model = model tc, p_messages = [(ascii ''system'', sp), (ascii ''user'', um)],
                p_stream = False, p_temperature = t, p_num_predict = 512\<rparr>) of
         None \<Rightarrow> Inr JNull
       | Some r \<Rightarrow>
           if r \<noteq> [] then
             (case jl (extract_json_text r) of
                Loaded v \<Rightarrow> Inr v
              | JSONDecodeError \<Rightarrow> Inr JNull
              | Raises e \<Rightarrow> Inl e)
           else Inr JNull),
      w\<lparr>calls := calls w @ [ChatRequest [(ascii ''system'', sp), (ascii ''user'', um)] t 512]\<rparr>)"
  by (simp add: generate_structured_def chat_def Let_def split: option.split loads_result.split)

lemma process_speech_accepted:
  assumes "\<not> float_lt (confidence speech) (confidence_threshold cfg)"
  shows "process_speech sv cfg speech w =
           finish sv speech (llm_output_of sv cfg speech w) (asked sv cfg speech w)"
proof -
  let ?mems = "search_memory sv (speech_text speech) (retrieval_top_k cfg)"
  obtain lc where b: "build_llm_context (sv_clk sv) (speech_session_id speech) (Some ?mems)
      (heard sv cfg speech w) = (Some lc, heard sv cfg speech w)"
    using build_llm_context_present [OF heard_present] by blast
  have um: "user_message_of sv cfg speech w =
      format_context_as_prompt (sv_py_str sv) lc @ student_says @ speech_text speech @ bot_says"
    by (simp add: user_message_of_def b)
  have g: "generate_structured (typhoon sv) (sv_post sv) (sv_json_loads sv) system_prompt
      (user_message_of sv cfg speech w) (temperature cfg) (heard sv cfg speech w) =
      (llm_output_of sv cfg speech w, asked sv cfg speech w)"
    by (simp add: generate_structured_eq llm_output_of_def llm_reply_def asked_def
        chat_request_of_def)
  have h: "heard sv cfg speech w =
     (add_conversation_turn (sv_clk sv) (speech_session_id speech) (ascii ''user'')
                 (JString (speech_text speech)) w)
     \<lparr>calls := calls (add_conversation_turn (sv_clk sv) (speech_session_id speech)
                        (ascii ''user'') (JString (speech_text speech)) w) @
                [SearchMemory (speech_text speech) (retrieval_top_k cfg)]\<rparr>"
    by (simp add: heard_def Let_def)
  show ?thesis
    using assms
    unfolding process_speech_def Let_def h [symmetric] b prod.case option.case um [symmetric] g
    unfolding finish_def answer_def Let_def prod.case
    by (simp only: if_False)
qed

lemma history_of_calls: "history_of sid (w\<lparr>calls := c\<rparr>) = history_of sid w"
  by (simp add: history_of_def)

lemma calls_add_conversation_turn: "calls (add_conversation_turn clk sid r c w) = calls w"
proof (cases "session_contexts w sid")
  case None
  then show ?thesis
    by (simp add: add_conversation_turn_def ensure_session_def create_session_def now_def
        assign_def Let_def)
next
  case (Some s)
  then show ?thesis by (simp add: add_conversation_turn_existing)
qed

lemma history_of_heard:
  "history_of (speech_session_id speech) (heard sv cfg speech w) =
     last_n 10 (history_of (speech_session_id speech) w @ [user_turn_of sv speech w])"
  by (simp add: heard_def Let_def history_of_calls history_of_add user_turn_of_def max_history_def)

lemma history_of_asked:
  "history_of (speech_session_id speech) (asked sv cfg speech w) =
     last_n 10 (history_of (speech_session_id speech) w @ [user_turn_of sv speech w])"
  by (simp add: asked_def history_of_calls history_of_heard)

lemma calls_asked:
  "calls (asked sv cfg speech w) =
     calls w @ [SearchMemory (speech_text speech) (retrieval_top_k cfg),
                chat_request_of sv cfg speech w]"
  by (simp add: asked_def heard_def Let_def calls_add_conversation_turn)

lemma llm_failure_output:
  assumes "no_response sv cfg speech w \<or> malformed_response sv cfg speech w"
  shows "llm_output_of sv cfg speech w = Inr JNull"
  using assms
  by (auto simp: no_response_def malformed_response_def llm_output_of_def split: option.splits)

lemma llm_raise_output:
  assumes "decoder_raises sv cfg speech w e"
  shows "llm_output_of sv cfg speech w = Inl e"
  using assms
  by (auto simp: decoder_raises_def llm_output_of_def split: option.splits)

lemma decoder_raises_excludes:
  assumes "decoder_raises sv cfg speech w e"
  shows "\<not> no_response sv cfg speech w" and "\<not> malformed_response sv cfg speech w"
  using assms
  by (auto simp: decoder_raises_def no_response_def malformed_response_def split: option.splits)

lemma llm_failure_result:
  assumes "\<not> float_lt (confidence speech) (confidence_threshold cfg)"
    and "no_response sv cfg speech w \<or> malformed_response sv cfg speech w"
  shows "process_speech sv cfg speech w =
           (Inl (HTTPException 500 (Exception no_response_text)), asked sv cfg speech w)"
  by (simp add: process_speech_accepted [OF assms(1)] llm_failure_output [OF assms(2)]
      finish_def answer_def)

lemma llm_raise_result:
  assumes "\<not> float_lt (confidence speech) (confidence_threshold cfg)"
    and "decoder_raises sv cfg speech w e"
  shows "process_speech sv cfg speech w = (Inl (HTTPException 500 e), asked sv cfg speech w)"
  by (simp add: process_speech_accepted [OF assms(1)] llm_raise_output [OF assms(2)] finish_def)

lemma in_last_n:
  assumes "length ys < n"
  shows "x \<in> set (last_n n (xs @ x # ys))"
proof -
  have "length (xs @ x # ys) - n \<le> length xs" using assms by simp
  then obtain k where k: "length xs = (length (xs @ x # ys) - n) + k"
    using le_Suc_ex by blast
  have "drop (length (xs @ x # ys) - n) (xs @ x # ys) =
        drop (length (xs @ x # ys) - n) xs @ x # ys"
    using \<open>length (xs @ x # ys) - n \<le> length xs\<close> by simp
  then show ?thesis by (simp add: last_n_def)
qed

lemma heard_post_loads:
  "heard (sv\<lparr>sv_post := p, sv_json_loads := j\<rparr>) cfg speech w = heard sv cfg speech w"
  by (simp add: heard_def)

lemma user_message_post_loads:
  "user_message_of (sv\<lparr>sv_post := p, sv_json_loads := j\<rparr>) cfg speech w =
   user_message_of sv cfg speech w"
  by (simp add: user_message_of_def heard_post_loads split: option.split)

lemma asked_post_loads:
  "asked (sv\<lparr>sv_post := p, sv_json_loads := j\<rparr>) cfg speech w = asked sv cfg speech w"
  by (simp add: asked_def chat_request_of_def heard_post_loads user_message_post_loads)

lemma accepted_clear: "\<not> float_lt (confidence speech_clear) (confidence_threshold cfg0)"
  by (simp add: speech_clear_def cfg0_def)

lemma no_response_down: "no_response sv_down cfg0 speech_clear w_empty"
  by (simp add: no_response_def llm_reply_def sv_down_def never_reply_def chat_text_def)

lemma malformed_garbled:
  "malformed_response (sv_down\<lparr>sv_post := always_reply garbled, sv_json_loads := sample_loads\<rparr>)
     cfg0 speech_clear w_empty"
proof -
  have "extract_json_text garbled = garbled"
    by (simp add: extract_json_text_def garbled_def fence_def fence_json_def ascii_def
        sublist_code(3))
  moreover have "py_strip garbled = garbled"
    by (simp add: py_strip_def garbled_def ascii_def is_space_def)
  moreover have "sample_loads garbled = JSONDecodeError"
    by (simp add: sample_loads_def garbled_def payload_hi_def payload_ticks_def ascii_def)
  moreover have "garbled \<noteq> []" by (simp add: garbled_def ascii_def)
  ultimately show ?thesis
    by (simp add: malformed_response_def llm_reply_def always_reply_def chat_text_reply)
qed

lemma set_sublist: "sublist xs ys \<Longrightarrow> set xs \<subseteq> set ys"
  by (auto simp: sublist_def)

lemma decoder_raises_deep:
  "decoder_raises (sv_down\<lparr>sv_post := always_reply deep, sv_json_loads := deep_loads\<rparr>)
     cfg0 speech_clear w_empty RecursionError"
proof -
  have n: "deep \<noteq> []" by (simp add: deep_def)
  have "py_strip deep = deep"
    by (rule py_strip_unspaced) (simp_all add: deep_def is_space_def)
  moreover have "\<not> sublist fence deep" "\<not> sublist fence_json deep"
    using set_sublist [of fence deep] set_sublist [of fence_json deep]
    by (auto simp: deep_def fence_eq fence_json_eq)
  then have "extract_json_text deep = deep" by (simp add: extract_json_text_def)
  moreover have "deep_loads deep = Raises RecursionError" by (simp add: deep_loads_def)
  ultimately show ?thesis
    using n by (simp add: decoder_raises_def llm_reply_def always_reply_def chat_text_reply)
qed

lemma sv_deep_eq:
  "sv_deep = sv_down\<lparr>sv_post := always_reply deep, sv_json_loads := deep_loads\<rparr>"
  by (simp add: sv_deep_def)

lemma sv_garbled_eq:
  "sv_garbled = sv_down\<lparr>sv_post := always_reply garbled, sv_json_loads := sample_loads\<rparr>"
  by (simp add: sv_garbled_def sv_down_def)

lemma llm_output_of_reply:
  assumes "sv_post sv = always_reply raw" and "py_strip raw = raw" and "raw \<noteq> []"
    and "extract_json_text raw = raw" and "sv_json_loads sv raw = Loaded v"
  shows "llm_output_of sv cfg speech w = Inr v"
  using assms
  by (simp add: llm_output_of_def llm_reply_def always_reply_def chat_text_reply)

lemma llm_output_nav: "llm_output_of sv_nav cfg0 speech_clear w_empty = Inr decoded_nav"
proof (rule llm_output_of_reply)
  show "sv_post sv_nav = always_reply payload_nav" by (simp add: sv_nav_def)
  show "py_strip payload_nav = payload_nav"
    by (simp add: py_strip_def payload_nav_def ascii_def is_space_def)
  show "payload_nav \<noteq> []" by (simp add: payload_nav_def ascii_def)
  show "extract_json_text payload_nav = payload_nav"
    by (simp add: extract_json_text_def payload_nav_def fence_def fence_json_def ascii_def
        sublist_code(3))
  show "sv_json_loads sv_nav payload_nav = Loaded decoded_nav"
    by (simp add: sv_nav_def nav_loads_def)
qed

lemma llm_output_nowhere: "llm_output_of sv_nowhere cfg0 speech_clear w_empty = Inr decoded_nowhere"
proof (rule llm_output_of_reply)
  show "sv_post sv_nowhere = always_reply payload_nowhere" by (simp add: sv_nowhere_def)
  show "py_strip payload_nowhere = payload_nowhere"
    by (simp add: py_strip_def payload_nowhere_def ascii_def is_space_def)
  show "payload_nowhere \<noteq> []" by (simp add: payload_nowhere_def ascii_def)
  show "extract_json_text payload_nowhere = payload_nowhere"
    by (simp add: extract_json_text_def payload_nowhere_def fence_def fence_json_def ascii_def
        sublist_code(3))
  show "sv_json_loads sv_nowhere payload_nowhere = Loaded decoded_nowhere"
    by (simp add: sv_nowhere_def nav_loads_def payload_nowhere_def payload_nav_def ascii_def)
qed

lemma llm_output_talk: "llm_output_of sv_talk cfg0 speech_clear w_empty = Inr decoded_talk"
proof (rule llm_output_of_reply)
  show "sv_post sv_talk = always_reply payload_talk" by (simp add: sv_talk_def)
  show "py_strip payload_talk = payload_talk"
    by (simp add: py_strip_def payload_talk_def ascii_def is_space_def)
  show "payload_talk \<noteq> []" by (simp add: payload_talk_def ascii_def)
  show "extract_json_text payload_talk = payload_talk"
    by (simp add: extract_json_text_def payload_talk_def fence_def fence_json_def ascii_def
        sublist_code(3))
  show "sv_json_loads sv_talk payload_talk = Loaded decoded_talk"
    by (simp add: sv_talk_def nav_loads_def payload_talk_def payload_nowhere_def payload_nav_def
        ascii_def)
qed

lemma llm_output_empty: "llm_output_of sv_empty cfg0 speech_clear w_empty = Inr (JObject [])"
proof (rule llm_output_of_reply)
  show "sv_post sv_empty = always_reply payload_empty" by (simp add: sv_empty_def)
  show "py_strip payload_empty = payload_empty"
    by (simp add: py_strip_def payload_empty_def ascii_def is_space_def)
  show "payload_empty \<noteq> []" by (simp add: payload_empty_def ascii_def)
  show "extract_json_text payload_empty = payload_empty"
    by (simp add: extract_json_text_def payload_empty_def fence_def fence_json_def ascii_def
        sublist_code(3))
  show "sv_json_loads sv_empty payload_empty = Loaded (JObject [])"
    by (simp add: sv_empty_def nav_loads_def payload_empty_def payload_talk_def
        payload_nowhere_def payload_nav_def ascii_def)
qed

lemma llm_output_null: "llm_output_of sv_null cfg0 speech_clear w_empty = Inr decoded_null"
proof (rule llm_output_of_reply)
  show "sv_post sv_null = always_reply payload_null" by (simp add: sv_null_def)
  show "py_strip payload_null = payload_null"
    by (simp add: py_strip_def payload_null_def ascii_def is_space_def)
  show "payload_null \<noteq> []" by (simp add: payload_null_def ascii_def)
  show "extract_json_text payload_null = payload_null"
    by (simp add: extract_json_text_def payload_null_def fence_def fence_json_def ascii_def
        sublist_code(3))
  show "sv_json_loads sv_null payload_null = Loaded decoded_null"
    by (simp add: sv_null_def nav_loads_def payload_null_def payload_empty_def payload_talk_def
        payload_nowhere_def payload_nav_def ascii_def)
qed

text \<open>
  C2. A request whose confidence is below the threshold is answered with the fixed
  clarification reply, intent \<^verbatim>\<open>clarification\<close> and no navigation; the state of the
  process is the one before the request, so neither the memory search nor the model
  was called and the history of the session is as it was.
\<close>

theorem low_confidence_short_circuit:
  assumes "float_lt (confidence speech) (confidence_threshold cfg)"
  shows "process_speech sv cfg speech w =
           (Inr \<lparr>resp_session_id = speech_session_id speech,
                 response_text = clarification_text,
                 intent = ascii ''clarification'',
                 should_navigate = False,
                 navigation_goal = None\<rparr>, w)
       \<and> calls (snd (process_speech sv cfg speech w)) = calls w
       \<and> history_of (speech_session_id speech) (snd (process_speech sv cfg speech w)) =
           history_of (speech_session_id speech) w"
  using assms by (simp add: process_speech_def)

theorem low_confidence_short_circuit_witness:
  "float_lt (confidence speech_faint) (confidence_threshold cfg0)
   \<and> process_speech sv_down cfg0 speech_faint w_sample =
       (Inr \<lparr>resp_session_id = s1,
             response_text = clarification_text,
             intent = ascii ''clarification'',
             should_navigate = False,
             navigation_goal = None\<rparr>, w_sample)
   \<and> calls (snd (process_speech sv_down cfg0 speech_faint w_sample)) = []
   \<and> history_of s1 (snd (process_speech sv_down cfg0 speech_faint w_sample)) =
       [\<lparr>role = ascii ''user'', content = JString (ascii ''hello''), timestamp = ascii ''t5''\<rparr>]"
proof -
  have a: "float_lt (confidence speech_faint) (confidence_threshold cfg0)"
    by (simp add: speech_faint_def cfg0_def)
  have b: "calls w_sample = []" "history_of s1 w_sample =
       [\<lparr>role = ascii ''user'', content = JString (ascii ''hello''), timestamp = ascii ''t5''\<rparr>]"
    "speech_session_id speech_faint = s1"
    by (simp_all add: w_sample_def history_of_def sample_session_def speech_faint_def)
  show ?thesis
    using a low_confidence_short_circuit [OF a, of sv_down w_sample] by (simp add: b)
qed

text \<open>
  C9. A request whose confidence equals the threshold is processed: the memory search
  and the model are called, in this order, and the user's turn is in the history of
  the session afterwards.
\<close>

theorem threshold_is_accepted:
  assumes "confidence speech = confidence_threshold cfg"
  shows "calls (snd (process_speech sv cfg speech w)) =
           calls w @ [SearchMemory (speech_text speech) (retrieval_top_k cfg),
                      chat_request_of sv cfg speech w]
       \<and> user_turn_of sv speech w \<in>
           set (history_of (speech_session_id speech) (snd (process_speech sv cfg speech w)))"
proof -
  let ?sid = "speech_session_id speech"
  let ?out = "llm_output_of sv cfg speech w"
  let ?w4 = "asked sv cfg speech w"
  have n: "\<not> float_lt (confidence speech) (confidence_threshold cfg)"
    unfolding assms by (cases "confidence_threshold cfg") simp_all
  have p: "process_speech sv cfg speech w = finish sv speech ?out ?w4"
    by (rule process_speech_accepted [OF n])
  have u: "user_turn_of sv speech w \<in> set (history_of ?sid ?w4)"
    unfolding history_of_asked using in_last_n [of "[]" 10] by simp
  have "snd (finish sv speech ?out ?w4) = ?w4 \<or>
        (\<exists>c. snd (finish sv speech ?out ?w4) =
              add_conversation_turn (sv_clk sv) ?sid (ascii ''assistant'') c ?w4)"
    by (auto simp: finish_def answer_def Let_def
        split: sum.splits json.splits option.splits if_splits prod.splits)
  then show ?thesis
  proof
    assume "snd (finish sv speech ?out ?w4) = ?w4"
    then show ?thesis using u by (simp add: p calls_asked)
  next
    assume "\<exists>c. snd (finish sv speech ?out ?w4) =
              add_conversation_turn (sv_clk sv) ?sid (ascii ''assistant'') c ?w4"
    then obtain c where c: "snd (finish sv speech ?out ?w4) =
              add_conversation_turn (sv_clk sv) ?sid (ascii ''assistant'') c ?w4" ..
    have "user_turn_of sv speech w \<in> set (history_of ?sid
              (add_conversation_turn (sv_clk sv) ?sid (ascii ''assistant'') c ?w4))"
      unfolding history_of_add history_of_asked max_history_def last_n_append_last_n
      using in_last_n [of "[_]" 10] by simp
    then show ?thesis by (simp add: p c calls_add_conversation_turn calls_asked)
  qed
qed

theorem threshold_is_accepted_witness:
  "confidence speech_edge = confidence_threshold cfg0
   \<and> calls (snd (process_speech sv_down cfg0 speech_edge w_empty)) =
       [SearchMemory (ascii ''hello'') 5, chat_request_of sv_down cfg0 speech_edge w_empty]
   \<and> \<lparr>role = ascii ''user'', content = JString (ascii ''hello''), timestamp = clk0 2\<rparr> \<in>
       set (history_of s1 (snd (process_speech sv_down cfg0 speech_edge w_empty)))"
proof -
  have a: "confidence speech_edge = confidence_threshold cfg0"
    by (simp add: speech_edge_def cfg0_def)
  have b: "user_turn_of sv_down speech_edge w_empty =
      \<lparr>role = ascii ''user'', content = JString (ascii ''hello''), timestamp = clk0 2\<rparr>"
    by (simp add: user_turn_of_def speech_edge_def sv_down_def w_empty_def ensure_session_def
        create_session_def now_def numeral_2_eq_2)
  have c: "speech_text speech_edge = ascii ''hello''" "retrieval_top_k cfg0 = 5"
    "speech_session_id speech_edge = s1" "calls w_empty = []"
    by (simp_all add: speech_edge_def cfg0_def w_empty_def)
  show ?thesis
    using a threshold_is_accepted [OF a, of sv_down w_empty] by (simp add: b c)
qed

text \<open>
  C1 fails, for a model server that cannot be reached as for one that answers in
  prose: the request is accepted and the endpoint answers with the error 500, not with
  a response.
\<close>

theorem llm_failure_is_error:
  "fst (process_speech sv_down cfg0 speech_clear w_empty) =
     Inl (HTTPException 500 (Exception no_response_text))
   \<and> fst (process_speech sv_garbled cfg0 speech_clear w_empty) =
     Inl (HTTPException 500 (Exception no_response_text))"
  using llm_failure_result [OF accepted_clear, of sv_down w_empty]
    llm_failure_result [OF accepted_clear, of sv_garbled w_empty]
    no_response_down malformed_garbled
  by (simp add: sv_garbled_eq)

text \<open>
  C1, amended. When a request is accepted and the model gives no text, or a text that
  \<^verbatim>\<open>json.loads\<close> does not decode, the endpoint returns no response: it raises the error
  500. Its detail is \<^verbatim>\<open>LLM returned no response\<close> when there was no text and when the
  decoder raised JSONDecodeError, and the text of the decoder's exception when it
  raised another one. The user's turn has been appended to the history of the session
  and no assistant turn follows it.
\<close>

theorem llm_failure_is_http_500:
  assumes "\<not> float_lt (confidence speech) (confidence_threshold cfg)"
    and "no_response sv cfg speech w \<or> malformed_response sv cfg speech w
         \<or> decoder_raises sv cfg speech w e"
  shows "process_speech sv cfg speech w =
           (Inl (HTTPException 500
                  (if decoder_raises sv cfg speech w e then e else Exception no_response_text)),
            asked sv cfg speech w)
       \<and> history_of (speech_session_id speech) (snd (process_speech sv cfg speech w)) =
           last_n 10 (history_of (speech_session_id speech) w @ [user_turn_of sv speech w])"
proof -
  have r: "process_speech sv cfg speech w =
      (Inl (HTTPException 500
             (if decoder_raises sv cfg speech w e then e else Exception no_response_text)),
       asked sv cfg speech w)"
  proof (cases "decoder_raises sv cfg speech w e")
    case True
    have "llm_output_of sv cfg speech w = Inl e"
      using True by (rule llm_raise_output)
    then have "process_speech sv cfg speech w =
        finish sv speech (Inl e) (asked sv cfg speech w)"
      using process_speech_accepted [OF assms(1), of sv w] by simp
    then show ?thesis using True by (simp add: finish_def)
  next
    case False
    then have "no_response sv cfg speech w \<or> malformed_response sv cfg speech w"
      using assms(2) by blast
    then have "llm_output_of sv cfg speech w = Inr JNull"
      by (rule llm_failure_output)
    then have "process_speech sv cfg speech w =
        finish sv speech (Inr JNull) (asked sv cfg speech w)"
      using process_speech_accepted [OF assms(1), of sv w] by simp
    then show ?thesis using False by (simp add: finish_def answer_def)
  qed
  have "history_of (speech_session_id speech) (snd (process_speech sv cfg speech w)) =
      last_n 10 (history_of (speech_session_id speech) w @ [user_turn_of sv speech w])"
    unfolding r by (simp add: history_of_asked)
  with r show ?thesis by blast
qed

theorem llm_failure_is_http_500_witness:
  "\<not> float_lt (confidence speech_clear) (confidence_threshold cfg0)
   \<and> no_response sv_down cfg0 speech_clear w_empty
   \<and> process_speech sv_down cfg0 speech_clear w_empty =
       (Inl (HTTPException 500 (Exception no_response_text)),
        asked sv_down cfg0 speech_clear w_empty)
   \<and> history_of s1 (snd (process_speech sv_down cfg0 speech_clear w_empty)) =
       [\<lparr>role = ascii ''user'', content = JString (ascii ''hello''), timestamp = clk0 2\<rparr>]
   \<and> decoder_raises sv_deep cfg0 speech_clear w_empty RecursionError
   \<and> process_speech sv_deep cfg0 speech_clear w_empty =
       (Inl (HTTPException 500 RecursionError), asked sv_deep cfg0 speech_clear w_empty)"
proof -
  note a = accepted_clear
  note b = no_response_down
  have nb: "\<not> decoder_raises sv_down cfg0 speech_clear w_empty RecursionError"
    using decoder_raises_excludes(1) b by blast
  have c: "user_turn_of sv_down speech_clear w_empty =
      \<lparr>role = ascii ''user'', content = JString (ascii ''hello''), timestamp = clk0 2\<rparr>"
    by (simp add: user_turn_of_def speech_clear_def sv_down_def w_empty_def ensure_session_def
        create_session_def now_def numeral_2_eq_2)
  have d: "speech_session_id speech_clear = s1" "history_of s1 w_empty = []"
    by (simp_all add: speech_clear_def history_of_def w_empty_def)
  note t = llm_failure_is_http_500 [OF a disjI1 [OF b], of RecursionError]
  have t1: "process_speech sv_down cfg0 speech_clear w_empty =
       (Inl (HTTPException 500 (Exception no_response_text)),
        asked sv_down cfg0 speech_clear w_empty)"
    using t [THEN conjunct1] nb by simp
  have t2: "history_of s1 (snd (process_speech sv_down cfg0 speech_clear w_empty)) =
       [\<lparr>role = ascii ''user'', content = JString (ascii ''hello''), timestamp = clk0 2\<rparr>]"
    using t [THEN conjunct2] by (simp add: c d last_n_def)
  have e: "decoder_raises sv_deep cfg0 speech_clear w_empty RecursionError"
    unfolding sv_deep_eq by (rule decoder_raises_deep)
  have t3: "process_speech sv_deep cfg0 speech_clear w_empty =
       (Inl (HTTPException 500 RecursionError), asked sv_deep cfg0 speech_clear w_empty)"
    using llm_failure_is_http_500 [OF a disjI2 [OF disjI2 [OF e]], THEN conjunct1] e by simp
  from a b t1 t2 e t3 show ?thesis by blast
qed

text \<open>
  C7 fails: the request has the same outcome, the same error and the same state,
  whether the model server cannot be reached or answers in prose.
\<close>

theorem llm_failures_look_alike:
  "process_speech sv_down cfg0 speech_clear w_empty =
   process_speech sv_garbled cfg0 speech_clear w_empty"
  using llm_failure_result [OF accepted_clear, of sv_down w_empty]
    llm_failure_result [OF accepted_clear, of sv_garbled w_empty]
    no_response_down malformed_garbled
    asked_post_loads [where sv = sv_down and p = "always_reply garbled" and j = sample_loads]
  by (simp add: sv_garbled_eq)

text \<open>
  C7, amended. Take an accepted request for which the model gives no text: the
  endpoint raises the error 500 with the detail \<^verbatim>\<open>LLM returned no response\<close>. With the same
  request, state and other services, a model whose text makes \<^verbatim>\<open>json.loads\<close> raise
  JSONDecodeError has the very same outcome, the same error and the same state: the
  endpoint does not tell the two apart. Only a text on which \<^verbatim>\<open>json.loads\<close> raises another
  exception is told apart: the error 500 then carries that exception, in the same
  state.
\<close>

theorem llm_failures_compared:
  assumes "\<not> float_lt (confidence speech) (confidence_threshold cfg)"
    and "no_response sv cfg speech w"
  shows "process_speech sv cfg speech w =
           (Inl (HTTPException 500 (Exception no_response_text)), asked sv cfg speech w)
       \<and> (malformed_response (sv\<lparr>sv_post := p, sv_json_loads := j\<rparr>) cfg speech w \<longrightarrow>
            process_speech (sv\<lparr>sv_post := p, sv_json_loads := j\<rparr>) cfg speech w =
            process_speech sv cfg speech w)
       \<and> (decoder_raises (sv\<lparr>sv_post := p, sv_json_loads := j\<rparr>) cfg speech w e \<longrightarrow>
            process_speech (sv\<lparr>sv_post := p, sv_json_loads := j\<rparr>) cfg speech w =
            (Inl (HTTPException 500 e), asked sv cfg speech w))"
proof -
  let ?sv = "sv\<lparr>sv_post := p, sv_json_loads := j\<rparr>"
  have a: "process_speech sv cfg speech w =
      (Inl (HTTPException 500 (Exception no_response_text)), asked sv cfg speech w)"
    using assms(2) by (simp add: llm_failure_result [OF assms(1)])
  have b: "process_speech ?sv cfg speech w = process_speech sv cfg speech w"
    if "malformed_response ?sv cfg speech w"
    using that llm_failure_result [OF assms(1), of ?sv w] a by (simp add: asked_post_loads)
  have c: "process_speech ?sv cfg speech w = (Inl (HTTPException 500 e), asked sv cfg speech w)"
    if "decoder_raises ?sv cfg speech w e"
    using llm_raise_result [OF assms(1) that] by (simp add: asked_post_loads)
  from a b c show ?thesis by blast
qed

theorem llm_failures_compared_witness:
  "\<not> float_lt (confidence speech_clear) (confidence_threshold cfg0)
   \<and> no_response sv_down cfg0 speech_clear w_empty
   \<and> process_speech sv_down cfg0 speech_clear w_empty =
       (Inl (HTTPException 500 (Exception no_response_text)),
        asked sv_down cfg0 speech_clear w_empty)
   \<and> malformed_response (sv_down\<lparr>sv_post := always_reply garbled, sv_json_loads := sample_loads\<rparr>)
        cfg0 speech_clear w_empty
   \<and> process_speech (sv_down\<lparr>sv_post := always_reply garbled, sv_json_loads := sample_loads\<rparr>)
        cfg0 speech_clear w_empty =
       process_speech sv_down cfg0 speech_clear w_empty
   \<and> decoder_raises (sv_down\<lparr>sv_post := always_reply deep, sv_json_loads := deep_loads\<rparr>)
        cfg0 speech_clear w_empty RecursionError
   \<and> process_speech (sv_down\<lparr>sv_post := always_reply deep, sv_json_loads := deep_loads\<rparr>)
        cfg0 speech_clear w_empty =
       (Inl (HTTPException 500 RecursionError), asked sv_down cfg0 speech_clear w_empty)"
proof -
  note g = llm_failures_compared [OF accepted_clear no_response_down,
      where p = "always_reply garbled" and j = sample_loads and e = RecursionError]
  note d = llm_failures_compared [OF accepted_clear no_response_down,
      where p = "always_reply deep" and j = deep_loads and e = RecursionError]
  from accepted_clear no_response_down malformed_garbled decoder_raises_deep g d
  show ?thesis by blast
qed

text \<open>
  C4 fails for a decoded output that is the empty object, and for one whose response
  is \<^verbatim>\<open>null\<close>: the endpoint raises the error 500 and yields no decision at all. The empty
  object counts as no output; the \<^verbatim>\<open>null\<close> is refused by the response model, whose
  response text is a \<^verbatim>\<open>str\<close>.
\<close>

theorem empty_object_is_error:
  "llm_output_of sv_empty cfg0 speech_clear w_empty = Inr (JObject [])
   \<and> fst (process_speech sv_empty cfg0 speech_clear w_empty) =
       Inl (HTTPException 500 (Exception no_response_text))
   \<and> llm_output_of sv_null cfg0 speech_clear w_empty = Inr decoded_null
   \<and> fst (process_speech sv_null cfg0 speech_clear w_empty) =
       Inl (HTTPException 500 ValidationError)"
proof -
  have a: "fst (process_speech sv_empty cfg0 speech_clear w_empty) =
       Inl (HTTPException 500 (Exception no_response_text))"
    by (simp add: process_speech_accepted [OF accepted_clear] llm_output_empty finish_def
        answer_def)
  have "sv_coerce_str sv_null = refuse" by (simp add: sv_null_def sv_down_def)
  then have b: "fst (process_speech sv_null cfg0 speech_clear w_empty) =
       Inl (HTTPException 500 ValidationError)"
    by (simp add: process_speech_accepted [OF accepted_clear] llm_output_null finish_def
        answer_def decoded_null_def dict_get_def ascii_def str_field_def refuse_def Let_def)
  from llm_output_empty a llm_output_null b show ?thesis by blast
qed

text \<open>
  C4, amended. When an accepted request reaches a decoded output that is an object,
  not the empty one, whose response and intent the response model takes as strings (as
  it takes every \<^verbatim>\<open>str\<close>), the response says to navigate exactly when the intent is
  \<^verbatim>\<open>navigation\<close> and the location is there and not empty (true as Python takes it; for a
  string, not the empty one). The goal is then the location with the priority
  \<^verbatim>\<open>normal\<close>; in every other case there is no goal.
\<close>

theorem navigation_gate:
  assumes "\<not> float_lt (confidence speech) (confidence_threshold cfg)"
    and "llm_output_of sv cfg speech w = Inr (JObject d)" and "d \<noteq> []"
    and "str_field (sv_coerce_str sv)
           (dict_get d (ascii ''response'') (JString default_response_text)) = Some rt"
    and "str_field (sv_coerce_str sv)
           (dict_get d (ascii ''intent'') (JString (ascii ''conversation''))) = Some it"
  shows "fst (process_speech sv cfg speech w) =
     Inr \<lparr>resp_session_id = speech_session_id speech,
          response_text = rt,
          intent = it,
          should_navigate =
            (dict_get d (ascii ''intent'') (JString (ascii ''conversation'')) =
               JString (ascii ''navigation'')
             \<and> truthy (dict_get d (ascii ''location'') JNull)),
          navigation_goal =
            (if dict_get d (ascii ''intent'') (JString (ascii ''conversation'')) =
                  JString (ascii ''navigation'')
                \<and> truthy (dict_get d (ascii ''location'') JNull)
             then Some \<lparr>target_location = dict_get d (ascii ''location'') JNull,
                        priority = ascii ''normal''\<rparr>
             else None)\<rparr>"
proof -
  have "process_speech sv cfg speech w =
      answer sv speech (JObject d) (asked sv cfg speech w)"
    using process_speech_accepted [OF assms(1), of sv w] assms(2) by (simp add: finish_def)
  then show ?thesis
    using assms(3-5) by (simp add: answer_def Let_def)
qed

theorem navigation_gate_witness:
  "\<not> float_lt (confidence speech_clear) (confidence_threshold cfg0)
   \<and> llm_output_of sv_nav cfg0 speech_clear w_empty = Inr decoded_nav
   \<and> fst (process_speech sv_nav cfg0 speech_clear w_empty) =
       Inr \<lparr>resp_session_id = s1, response_text = ascii ''ok'', intent = ascii ''navigation'',
            should_navigate = True,
            navigation_goal = Some \<lparr>target_location = JString (ascii ''library''),
                                    priority = ascii ''normal''\<rparr>\<rparr>
   \<and> llm_output_of sv_nowhere cfg0 speech_clear w_empty = Inr decoded_nowhere
   \<and> fst (process_speech sv_nowhere cfg0 speech_clear w_empty) =
       Inr \<lparr>resp_session_id = s1, response_text = ascii ''ok'', intent = ascii ''navigation'',
            should_navigate = False, navigation_goal = None\<rparr>
   \<and> llm_output_of sv_talk cfg0 speech_clear w_empty = Inr decoded_talk
   \<and> fst (process_speech sv_talk cfg0 speech_clear w_empty) =
       Inr \<lparr>resp_session_id = s1, response_text = ascii ''ok'', intent = ascii ''conversation'',
            should_navigate = False, navigation_goal = None\<rparr>"
proof -
  have a: "fst (process_speech sv_nav cfg0 speech_clear w_empty) =
       Inr \<lparr>resp_session_id = s1, response_text = ascii ''ok'', intent = ascii ''navigation'',
            should_navigate = True,
            navigation_goal = Some \<lparr>target_location = JString (ascii ''library''),
                                    priority = ascii ''normal''\<rparr>\<rparr>"
    using navigation_gate [OF accepted_clear llm_output_nav [unfolded decoded_nav_def],
        of "ascii ''ok''" "ascii ''navigation''"]
    by (simp add: dict_get_def str_field_def ascii_def speech_clear_def)
  have b: "fst (process_speech sv_nowhere cfg0 speech_clear w_empty) =
       Inr \<lparr>resp_session_id = s1, response_text = ascii ''ok'', intent = ascii ''navigation'',
            should_navigate = False, navigation_goal = None\<rparr>"
    using navigation_gate [OF accepted_clear llm_output_nowhere [unfolded decoded_nowhere_def],
        of "ascii ''ok''" "ascii ''navigation''"]
    by (simp add: dict_get_def str_field_def ascii_def speech_clear_def)
  have c: "fst (process_speech sv_talk cfg0 speech_clear w_empty) =
       Inr \<lparr>resp_session_id = s1, response_text = ascii ''ok'', intent = ascii ''conversation'',
            should_navigate = False, navigation_goal = None\<rparr>"
    using navigation_gate [OF accepted_clear llm_output_talk [unfolded decoded_talk_def],
        of "ascii ''ok''" "ascii ''conversation''"]
    by (simp add: dict_get_def str_field_def ascii_def speech_clear_def)
  from accepted_clear llm_output_nav a llm_output_nowhere b llm_output_talk c
  show ?thesis by blast
qed


end
